theory Spec2Isabelle
  imports Complex_Main "HOL-Library.Word"
begin

section \<open>Data model (wrap.h)\<close>

text \<open>
  Coordinates are only stored and copied by this layer, never computed with, so a
  \<open>double\<close> is read as a real number. Indices and face counts are \<open>uint32_t\<close>, the
  seed is \<open>int32_t\<close>; \<open>std::string\<close> and \<open>std::wstring\<close> are both \<open>string\<close>.
\<close>

type_synonym double = real
type_synonym uint32_t = "32 word"
type_synonym int32_t = "32 word"  \<comment> \<open>read as two's complement by \<open>sint\<close>\<close>

record InitialShape =
  mVertices :: "double list"
  mIndices :: "uint32_t list"
  mFaceCounts :: "uint32_t list"
  mPath :: string
  mPathFlag :: bool

definition getVertexCount :: "InitialShape \<Rightarrow> nat" where
  "getVertexCount s = length (mVertices s)"

definition getIndexCount :: "InitialShape \<Rightarrow> nat" where
  "getIndexCount s = length (mIndices s)"

definition getFaceCountsCount :: "InitialShape \<Rightarrow> nat" where
  "getFaceCountsCount s = length (mFaceCounts s)"

section \<open>InitialShape constructors (wrap.cpp, lines 87-97)\<close>

text \<open>
  \<open>std::iota(begin, end, 0)\<close>: the counter has the type of the literal \<open>0\<close>, a 32-bit
  \<open>int\<close>. Each round stores the counter (converted to \<open>uint32_t\<close>) and increments
  it; incrementing \<open>INT_MAX\<close> is undefined behaviour, which is the result \<open>None\<close>.
\<close>

definition INT_MAX :: int where
  "INT_MAX = 2 ^ 31 - 1"

function iota :: "nat \<Rightarrow> nat \<Rightarrow> int \<Rightarrow> uint32_t list \<Rightarrow> uint32_t list option" where
  "iota i n val xs =
     (if i < n
      then (if val + 1 > INT_MAX then None
            else iota (Suc i) n (val + 1) (xs[i := word_of_int val]))
      else Some xs)"
  by pat_completeness auto
termination
  by (relation "measure (\<lambda>(i, n, val, xs). n - i)") auto

declare iota.simps [simp del]

text \<open>
  \<open>InitialShape(const std::vector<double>& vert)\<close>: \<open>mIndices\<close> is resized to
  \<open>vert.size() / 3\<close> zeros and filled by \<open>iota\<close>; \<open>mFaceCounts\<close> is one element, the
  index count converted to \<open>uint32_t\<close>.
\<close>

definition InitialShape_vert :: "double list \<Rightarrow> InitialShape option" where
  "InitialShape_vert vert =
     (case iota 0 (length vert div 3) 0 (replicate (length vert div 3) 0) of
        None \<Rightarrow> None
      | Some ind \<Rightarrow>
          Some \<lparr>mVertices = vert, mIndices = ind,
                mFaceCounts = [word_of_nat (length ind)],
                mPath = [], mPathFlag = False\<rparr>)"

definition InitialShape_geo :: "double list \<Rightarrow> uint32_t list \<Rightarrow> uint32_t list \<Rightarrow> InitialShape" where
  "InitialShape_geo vert ind faceCnt =
     \<lparr>mVertices = vert, mIndices = ind, mFaceCounts = faceCnt, mPath = [], mPathFlag = False\<rparr>"

definition InitialShape_path :: "string \<Rightarrow> InitialShape" where
  "InitialShape_path initShapePath =
     \<lparr>mVertices = [], mIndices = [], mFaceCounts = [], mPath = initShapePath, mPathFlag = True\<rparr>"

text \<open>
  The default indexing as the specification words it: the indices read as numbers are
  \<open>0, 1, ..., |v|/3 - 1\<close> and the face counts are the single number \<open>|v|/3\<close>.
\<close>

definition default_indexing :: "double list \<Rightarrow> bool" where
  "default_indexing v =
     (case InitialShape_vert v of
        None \<Rightarrow> False
      | Some s \<Rightarrow> mVertices s = v \<and> map unat (mIndices s) = [0 ..< length v div 3]
                 \<and> map unat (mFaceCounts s) = [length v div 3])"

section \<open>Values exchanged with the Engine and with Python\<close>

datatype Status = STATUS_OK | STATUS_UNSPECIFIED_ERROR | STATUS_ERROR nat

text \<open>A C++ exception: a \<open>std::exception\<close> with its \<open>what()\<close>, or anything else.\<close>

datatype exn = StdException string | UnknownException

datatype PyObject = PyStr string | PyInt int | PyFloat double | PyBool bool | PyOther

text \<open>A \<open>py::dict\<close> with string keys, as an association list.\<close>

type_synonym pydict = "(string \<times> PyObject) list"

text \<open>
  \<open>dict[key].cast<std::string>()\<close>: a missing key raises \<open>KeyError\<close>, a value that is
  not a string raises \<open>cast_error\<close>; pybind11 throws both as \<open>std::exception\<close>s.
\<close>

definition cast_string_item :: "pydict \<Rightarrow> string \<Rightarrow> exn + string" where
  "cast_string_item d k =
     (case map_of d k of
        None \<Rightarrow> Inl (StdException ''KeyError'')
      | Some (PyStr s) \<Rightarrow> Inr s
      | Some _ \<Rightarrow> Inl (StdException ''cast_error''))"

datatype PrimitiveType = PT_UNDEFINED | PT_STRING | PT_INT | PT_FLOAT | PT_BOOL

datatype AttrValue = AString string | AInt int32_t | AFloat double | ABool bool

text \<open>\<open>prt::AttributeMap\<close> with its introspection (\<open>hasKey\<close>, \<open>getType\<close>, getters).\<close>

type_synonym AttributeMap = "(string \<times> AttrValue) list"

definition hasKey :: "AttributeMap \<Rightarrow> string \<Rightarrow> bool" where
  "hasKey m k = (case map_of m k of None \<Rightarrow> False | Some _ \<Rightarrow> True)"

definition getType :: "AttributeMap \<Rightarrow> string \<Rightarrow> PrimitiveType" where
  "getType m k =
     (case map_of m k of
        None \<Rightarrow> PT_UNDEFINED
      | Some (AString _) \<Rightarrow> PT_STRING
      | Some (AInt _) \<Rightarrow> PT_INT
      | Some (AFloat _) \<Rightarrow> PT_FLOAT
      | Some (ABool _) \<Rightarrow> PT_BOOL)"

definition getString :: "AttributeMap \<Rightarrow> string \<Rightarrow> string" where
  "getString m k = (case map_of m k of Some (AString s) \<Rightarrow> s | _ \<Rightarrow> [])"

definition getInt :: "AttributeMap \<Rightarrow> string \<Rightarrow> int32_t" where
  "getInt m k = (case map_of m k of Some (AInt i) \<Rightarrow> i | _ \<Rightarrow> 0)"

datatype ResolveMap = ResolveMap (objectToXML: string)

datatype CacheObject = CacheObject

datatype AttributeMapBuilder = AttributeMapBuilder

datatype PRTHandle = PRTHandle

text \<open>
  The geometry held by a \<open>prt::InitialShapeBuilder\<close> (inline buffers, or resolved from
  a URI) and the attributes last given to \<open>setAttributes\<close>.
\<close>

datatype Geometry =
    InlineGeometry "double list" "uint32_t list" "uint32_t list"
  | ResolvedGeometry string

record ShapeAttributes =
  sa_ruleFile :: string
  sa_startRule :: string
  sa_seed :: int32_t
  sa_shapeName :: string
  sa_attributes :: "AttributeMap option"
  sa_resolveMap :: "ResolveMap option"

record InitialShapeBuilder =
  isb_geometry :: "Geometry option"
  isb_attributes :: "ShapeAttributes option"

text \<open>\<open>createInitialShape\<close> freezes what the builder holds into a \<open>prt::InitialShape\<close>.\<close>

datatype PrtInitialShape = PrtInitialShape InitialShapeBuilder

definition createInitialShape :: "InitialShapeBuilder \<Rightarrow> PrtInitialShape" where
  "createInitialShape isb = PrtInitialShape isb"

definition setAttributes ::
  "string \<Rightarrow> string \<Rightarrow> int32_t \<Rightarrow> string \<Rightarrow> AttributeMap option \<Rightarrow> ResolveMap option \<Rightarrow>
   InitialShapeBuilder \<Rightarrow> InitialShapeBuilder" where
  "setAttributes ruleF startR randomS shapeN attrs rm isb =
     isb\<lparr>isb_attributes := Some \<lparr>sa_ruleFile = ruleF, sa_startRule = startR, sa_seed = randomS,
                                 sa_shapeName = shapeN, sa_attributes = attrs,
                                 sa_resolveMap = rm\<rparr>\<rparr>"

record GeneratedModel =
  mInitialShapeIndex :: nat
  gmVertices :: "double list"
  gmIndices :: "uint32_t list"
  gmFaces :: "uint32_t list"
  gmReport :: pydict

text \<open>
  The callback sink handed to \<open>prt::generate\<close>: the in-memory collector
  \<open>PyCallbacks\<close>, sized to the number of initial shapes, or \<open>prt::FileOutputCallbacks\<close>
  on a directory. What the collector holds after the generation pass is read through its
  four accessors.
\<close>

datatype Callbacks = PyCallbacksSink nat | FileOutputCallbacks string

record PyCallbacks =
  getVertices :: "nat \<Rightarrow> double list"
  getIndices :: "nat \<Rightarrow> uint32_t list"
  getFaces :: "nat \<Rightarrow> uint32_t list"
  getReport :: "nat \<Rightarrow> pydict"

text \<open>
  The collaborators the orchestrator calls and whose code is not part of wrap.cpp: the
  Engine (\<open>prt::\<close>), the helpers of \<open>pcu::\<close> (utils) and \<open>std::filesystem\<close>. They are
  parameters of the model. A call that can throw returns \<open>Inl\<close> of the exception.
\<close>

record Engine =
  prt_init :: "PRTHandle option"
  toFileURI :: "string \<Rightarrow> string"
  resolveGeometry :: "string \<Rightarrow> Status"
  setGeometry :: "double list \<Rightarrow> uint32_t list \<Rightarrow> uint32_t list \<Rightarrow> Status"
  createResolveMap :: "string \<Rightarrow> exn + (ResolveMap option \<times> Status)"
  createAttributeMapFromPythonDict :: "pydict \<Rightarrow> exn + AttributeMap option"
  createValidatedOptions :: "string \<Rightarrow> AttributeMap option \<Rightarrow> exn + AttributeMap option"
  generate :: "PrtInitialShape option list \<Rightarrow> string list \<Rightarrow> AttributeMap option list \<Rightarrow>
               Callbacks \<Rightarrow> exn + (Status \<times> PyCallbacks)"
  is_directory :: "string \<Rightarrow> bool"
  path_exists :: "string \<Rightarrow> bool"

section \<open>Process-wide state: the PRT context, the log, the calls made to the Engine\<close>

record PRTContext =
  mPRTHandle :: "PRTHandle option"

datatype LogLevel = LOG_DBG | LOG_INF | LOG_WRN | LOG_ERR

datatype GenerateCall =
  GenerateCall "PrtInitialShape option list" "string list" "AttributeMap option list" Callbacks

record World =
  prtCtx :: "PRTContext option"
  logged :: "(LogLevel \<times> string) list"
  printed :: "string list"
  generateCalls :: "GenerateCall list"

definition LOG :: "LogLevel \<Rightarrow> string \<Rightarrow> World \<Rightarrow> World" where
  "LOG lvl msg w = w\<lparr>logged := logged w @ [(lvl, msg)]\<rparr>"

definition py_print :: "string \<Rightarrow> World \<Rightarrow> World" where
  "py_print msg w = w\<lparr>printed := printed w @ [msg]\<rparr>"

definition call_generate :: "GenerateCall \<Rightarrow> World \<Rightarrow> World" where
  "call_generate c w = w\<lparr>generateCalls := generateCalls w @ [c]\<rparr>"

definition initializePRT :: "Engine \<Rightarrow> World \<Rightarrow> World" where
  "initializePRT env w =
     (if prtCtx w = None then w\<lparr>prtCtx := Some \<lparr>mPRTHandle = prt_init env\<rparr>\<rparr> else w)"

definition isPRTInitialized :: "World \<Rightarrow> bool" where
  "isPRTInitialized w = (prtCtx w \<noteq> None)"

definition shutdownPRT :: "World \<Rightarrow> World" where
  "shutdownPRT w = w\<lparr>prtCtx := None\<rparr>"

text \<open>The process before \<open>initialize_prt\<close> was ever called.\<close>

definition startWorld :: World where
  "startWorld = \<lparr>prtCtx = None, logged = [], printed = [], generateCalls = []\<rparr>"

section \<open>Constants of wrap.cpp\<close>

definition FILE_CGA_REPORT :: string where
  "FILE_CGA_REPORT = ''CGAReport.txt''"

definition ENCODER_OPT_NAME :: string where
  "ENCODER_OPT_NAME = ''name''"

definition ENCODER_ID_CGA_REPORT :: string where
  "ENCODER_ID_CGA_REPORT = ''com.esri.prt.core.CGAReportEncoder''"

definition ENCODER_ID_CGA_PRINT :: string where
  "ENCODER_ID_CGA_PRINT = ''com.esri.prt.core.CGAPrintEncoder''"

definition ENCODER_ID_PYTHON :: string where
  "ENCODER_ID_PYTHON = ''com.esri.pyprt.PyEncoder''"

section \<open>ModelGenerator (wrap.h, wrap.cpp lines 125-372)\<close>

record ModelGenerator =
  mResolveMap :: "ResolveMap option"
  mCache :: CacheObject
  mEncoderBuilder :: "AttributeMapBuilder option"
  mEncodersOptionsPtr :: "AttributeMap option list"
  mEncodersNames :: "string list"
  mInitialShapesBuilders :: "InitialShapeBuilder option list"
  mRuleFile :: string
  mStartRule :: string
  mSeed :: int32_t
  mShapeName :: string
  mValid :: bool

text \<open>The default member initialisers of the class, with \<open>n\<close> empty builder slots.\<close>

definition newModelGenerator :: "nat \<Rightarrow> ModelGenerator" where
  "newModelGenerator n =
     \<lparr>mResolveMap = None, mCache = CacheObject, mEncoderBuilder = None,
      mEncodersOptionsPtr = [], mEncodersNames = [],
      mInitialShapesBuilders = replicate n None,
      mRuleFile = ''bin/rule.cgb'', mStartRule = ''default$init'', mSeed = 666,
      mShapeName = ''InitialShape'', mValid = True\<rparr>"

text \<open>One round of the constructor's loop over the initial shapes.\<close>

definition ctor_body :: "Engine \<Rightarrow> InitialShape \<Rightarrow> nat \<Rightarrow> ModelGenerator \<Rightarrow> World \<Rightarrow> ModelGenerator \<times> World" where
  "ctor_body env shape ind mg w =
     (let isb = \<lparr>isb_geometry = None, isb_attributes = None\<rparr>;
          (isb', mg', w') =
            (if mPathFlag shape
             then (if toFileURI env (mPath shape) \<noteq> []
                   then (let w1 = LOG LOG_DBG (''trying to read initial shape geometry from ''
                                               @ toFileURI env (mPath shape)) w
                         in if resolveGeometry env (toFileURI env (mPath shape)) \<noteq> STATUS_OK
                            then (isb, mg\<lparr>mValid := False\<rparr>,
                                  LOG LOG_ERR (''could not resolve geometry from ''
                                               @ toFileURI env (mPath shape)) w1)
                            else (isb\<lparr>isb_geometry :=
                                        Some (ResolvedGeometry (toFileURI env (mPath shape)))\<rparr>,
                                  mg, w1))
                   else (isb, mg\<lparr>mValid := False\<rparr>,
                         LOG LOG_ERR ''could not read initial shape geometry, unvalid path'' w))
             else (if setGeometry env (mVertices shape) (mIndices shape) (mFaceCounts shape)
                      \<noteq> STATUS_OK
                   then (isb, mg\<lparr>mValid := False\<rparr>, LOG LOG_ERR ''invalid initial geometry'' w)
                   else (isb\<lparr>isb_geometry :=
                               Some (InlineGeometry (mVertices shape) (mIndices shape)
                                       (mFaceCounts shape))\<rparr>,
                         mg, w)))
      in (if mValid mg'
          then mg'\<lparr>mInitialShapesBuilders := (mInitialShapesBuilders mg')[ind := Some isb']\<rparr>
          else mg',
          w'))"

function ctor_loop :: "Engine \<Rightarrow> InitialShape list \<Rightarrow> nat \<Rightarrow> ModelGenerator \<Rightarrow> World \<Rightarrow> ModelGenerator \<times> World" where
  "ctor_loop env myGeo ind mg w =
     (if ind < length myGeo
      then (case ctor_body env (myGeo ! ind) ind mg w of
              (mg', w') \<Rightarrow> ctor_loop env myGeo (Suc ind) mg' w')
      else (mg, w))"
  by pat_completeness auto
termination
  by (relation "measure (\<lambda>(env, myGeo, ind, mg, w). length myGeo - ind)") auto

declare ctor_loop.simps [simp del]

definition ModelGenerator_ctor :: "Engine \<Rightarrow> InitialShape list \<Rightarrow> World \<Rightarrow> ModelGenerator \<times> World" where
  "ModelGenerator_ctor env myGeo w = ctor_loop env myGeo 0 (newModelGenerator (length myGeo)) w"

section \<open>Control flow inside generateModel\<close>

text \<open>
  A stretch of the body of \<open>generateModel\<close> either goes on with a value (\<open>Next\<close>),
  leaves the function through a \<open>return\<close>, throws, or has undefined behaviour (a vector
  read out of range, a null builder dereferenced). The member state and the process state
  reached so far come with the first three.
\<close>

datatype 'a step =
    Next 'a ModelGenerator World
  | Return "GeneratedModel list" ModelGenerator World
  | Throw exn ModelGenerator World
  | Undefined

fun andThen :: "'a step \<Rightarrow> ('a \<Rightarrow> ModelGenerator \<Rightarrow> World \<Rightarrow> 'b step) \<Rightarrow> 'b step" where
  "andThen (Next x mg w) f = f x mg w"
| "andThen (Return ms mg w) f = Return ms mg w"
| "andThen (Throw e mg w) f = Throw e mg w"
| "andThen Undefined f = Undefined"

text \<open>What a call of \<open>generateModel\<close> or \<open>generateAnotherModel\<close> comes to.\<close>

datatype Outcome =
    Returns "GeneratedModel list" ModelGenerator World
  | UndefinedBehaviour

section \<open>extractMainShapeAttributes (lines 106-123)\<close>

definition extractMainShapeAttributes ::
  "Engine \<Rightarrow> pydict \<Rightarrow> string \<Rightarrow> string \<Rightarrow> int32_t \<Rightarrow> string \<Rightarrow>
   exn + (string \<times> string \<times> int32_t \<times> string \<times> AttributeMap option)" where
  "extractMainShapeAttributes env shapeAttr ruleFile startRule seed shapeName =
     (case createAttributeMapFromPythonDict env shapeAttr of
        Inl e \<Rightarrow> Inl e
      | Inr None \<Rightarrow> Inr (ruleFile, startRule, seed, shapeName, None)
      | Inr (Some m) \<Rightarrow>
          Inr (if hasKey m ''ruleFile'' \<and> getType m ''ruleFile'' = PT_STRING
               then getString m ''ruleFile'' else ruleFile,
               if hasKey m ''startRule'' \<and> getType m ''startRule'' = PT_STRING
               then getString m ''startRule'' else startRule,
               if hasKey m ''seed'' \<and> getType m ''seed'' = PT_INT
               then getInt m ''seed'' else seed,
               if hasKey m ''shapeName'' \<and> getType m ''shapeName'' = PT_STRING
               then getString m ''shapeName'' else shapeName,
               Some m))"

section \<open>setAndCreateInitialShape (lines 167-188)\<close>

text \<open>
  \<open>shapeAttr = shapesAttr[0]; if (shapesAttr.size() > ind) shapeAttr = shapesAttr[ind];\<close>
  Reading \<open>shapesAttr[0]\<close> of an empty vector is out of range: \<open>None\<close>.
\<close>

definition selectShapeAttr :: "pydict list \<Rightarrow> nat \<Rightarrow> pydict option" where
  "selectShapeAttr shapesAttr ind =
     (case shapesAttr of
        [] \<Rightarrow> None
      | a0 # _ \<Rightarrow> Some (if length shapesAttr > ind then shapesAttr ! ind else a0))"

function setAndCreateInitialShape ::
  "Engine \<Rightarrow> pydict list \<Rightarrow> nat \<Rightarrow> PrtInitialShape option list \<Rightarrow> ModelGenerator \<Rightarrow> World \<Rightarrow>
   PrtInitialShape option list step" where
  "setAndCreateInitialShape env shapesAttr ind initShapes mg w =
     (if ind < length (mInitialShapesBuilders mg)
      then (case selectShapeAttr shapesAttr ind of
              None \<Rightarrow> Undefined
            | Some shapeAttr \<Rightarrow>
                (case extractMainShapeAttributes env shapeAttr
                        (mRuleFile mg) (mStartRule mg) (mSeed mg) (mShapeName mg) of
                   Inl e \<Rightarrow> Throw e mg w
                 | Inr (ruleF, startR, randomS, shapeN, conv) \<Rightarrow>
                     (case mInitialShapesBuilders mg ! ind of
                        None \<Rightarrow> Undefined
                      | Some isb \<Rightarrow>
                          setAndCreateInitialShape env shapesAttr (Suc ind)
                            (initShapes[ind := Some (createInitialShape
                               (setAttributes ruleF startR randomS shapeN conv (mResolveMap mg) isb))])
                            (mg\<lparr>mInitialShapesBuilders := (mInitialShapesBuilders mg)
                                  [ind := Some (setAttributes ruleF startR randomS shapeN conv
                                                  (mResolveMap mg) isb)]\<rparr>)
                            w)))
      else Next initShapes mg w)"
  by pat_completeness auto
termination
  by (relation "measure (\<lambda>(env, shapesAttr, ind, initShapes, mg, w).
                           length (mInitialShapesBuilders mg) - ind)") auto

declare setAndCreateInitialShape.simps [simp del]

section \<open>initializeEncoderData (lines 190-210)\<close>

definition initializeEncoderData :: "Engine \<Rightarrow> string \<Rightarrow> pydict \<Rightarrow> ModelGenerator \<Rightarrow> World \<Rightarrow> unit step" where
  "initializeEncoderData env encName encOpt mg w =
     (let mg1 = mg\<lparr>mEncodersNames := [encName], mEncodersOptionsPtr := []\<rparr>
      in case createAttributeMapFromPythonDict env encOpt of
           Inl e \<Rightarrow> Throw e mg1 w
         | Inr encOptions \<Rightarrow>
             (case createValidatedOptions env encName encOptions of
                Inl e \<Rightarrow> Throw e mg1 w
              | Inr validated \<Rightarrow>
                  (let mg2 = mg1\<lparr>mEncodersOptionsPtr := mEncodersOptionsPtr mg1 @ [validated]\<rparr>
                   in if encName \<noteq> ENCODER_ID_PYTHON
                      then (let mg3 = mg2\<lparr>mEncodersNames := mEncodersNames mg2
                                            @ [ENCODER_ID_CGA_REPORT, ENCODER_ID_CGA_PRINT]\<rparr>;
                                reportOptions = Some [(ENCODER_OPT_NAME, AString FILE_CGA_REPORT)];
                                printOptions = Some []
                            in case createValidatedOptions env ENCODER_ID_CGA_REPORT reportOptions of
                                 Inl e \<Rightarrow> Throw e mg3 w
                               | Inr rep \<Rightarrow>
                                   (let mg4 = mg3\<lparr>mEncodersOptionsPtr :=
                                                     mEncodersOptionsPtr mg3 @ [rep]\<rparr>
                                    in case createValidatedOptions env ENCODER_ID_CGA_PRINT
                                              printOptions of
                                         Inl e \<Rightarrow> Throw e mg4 w
                                       | Inr prn \<Rightarrow>
                                           Next () (mg4\<lparr>mEncodersOptionsPtr :=
                                                          mEncodersOptionsPtr mg4 @ [prn]\<rparr>) w))
                      else Next () mg2 w)))"

section \<open>getRawEncoderDataPointers (lines 212-232)\<close>

text \<open>\<open>None\<close>: \<open>mEncodersNames\<close> or \<open>mEncodersOptionsPtr\<close> is read out of range.\<close>

definition getRawEncoderDataPointers ::
  "ModelGenerator \<Rightarrow> (string list \<times> AttributeMap option list) option" where
  "getRawEncoderDataPointers mg =
     (if mEncodersNames mg = [] then None
      else if mEncodersNames mg ! 0 = ENCODER_ID_PYTHON
      then (if mEncodersOptionsPtr mg = [] then None
            else Some ([mEncodersNames mg ! 0], [mEncodersOptionsPtr mg ! 0]))
      else (if length (mEncodersNames mg) < 3 \<or> length (mEncodersOptionsPtr mg) < 3 then None
            else Some ([mEncodersNames mg ! 0, mEncodersNames mg ! 1, mEncodersNames mg ! 2],
                       [mEncodersOptionsPtr mg ! 0, mEncodersOptionsPtr mg ! 1,
                        mEncodersOptionsPtr mg ! 2])))"

section \<open>generateModel (lines 234-363)\<close>

text \<open>Lines 258-261: the check of the PRT context, first statement of the try block.\<close>

definition checkPRT :: "ModelGenerator \<Rightarrow> World \<Rightarrow> unit step" where
  "checkPRT mg w =
     (if prtCtx w = None then Return [] mg (LOG LOG_ERR ''prt has not been initialized.'' w)
      else Next () mg w)"

text \<open>
  Lines 264-283. \<open>mResolveMap.reset\<close> takes whatever \<open>prt::createResolveMap\<close> returns;
  when that call throws, neither the member nor \<open>status\<close> is written.
\<close>

definition checkResolveMap :: "string \<Rightarrow> Status \<Rightarrow> ModelGenerator \<Rightarrow> World \<Rightarrow> unit step" where
  "checkResolveMap rulePackagePath status mg w =
     (case mResolveMap mg of
        Some rm \<Rightarrow>
          (if status = STATUS_OK
           then Next () mg (LOG LOG_DBG (''resolve map = '' @ objectToXML rm) w)
           else Return [] mg (LOG LOG_ERR (''getting resolve map from '' @ rulePackagePath
                                           @ '' failed, aborting.'') w))
      | None \<Rightarrow>
          Return [] mg (LOG LOG_ERR (''getting resolve map from '' @ rulePackagePath
                                     @ '' failed, aborting.'') w))"

definition resolveRulePackage :: "Engine \<Rightarrow> string \<Rightarrow> ModelGenerator \<Rightarrow> World \<Rightarrow> unit step" where
  "resolveRulePackage env rulePackagePath mg w =
     (if rulePackagePath \<noteq> []
      then (let w1 = LOG LOG_INF (''using rule package '' @ rulePackagePath) w
            in case createResolveMap env (toFileURI env rulePackagePath) of
                 Inl (StdException what) \<Rightarrow>
                   checkResolveMap rulePackagePath STATUS_UNSPECIFIED_ERROR mg
                     (py_print (''CAUGHT EXCEPTION: '' @ what) w1)
               | Inl UnknownException \<Rightarrow> Throw UnknownException mg w1
               | Inr (rm, status) \<Rightarrow>
                   checkResolveMap rulePackagePath status (mg\<lparr>mResolveMap := rm\<rparr>) w1)
      else Next () mg w)"

text \<open>Lines 292-296: the encoder builder is created once; a given name rebuilds the encoder set.\<close>

definition setupEncoders :: "Engine \<Rightarrow> string \<Rightarrow> pydict \<Rightarrow> ModelGenerator \<Rightarrow> World \<Rightarrow> unit step" where
  "setupEncoders env geometryEncoderName geometryEncoderOptions mg w =
     (let mg1 = (if mEncoderBuilder mg = None
                 then mg\<lparr>mEncoderBuilder := Some AttributeMapBuilder\<rparr> else mg)
      in if geometryEncoderName \<noteq> []
         then initializeEncoderData env geometryEncoderName geometryEncoderOptions mg1 w
         else Next () mg1 w)"

text \<open>Lines 320-323: the collector is drained, one model per initial-shape index.\<close>

function drain :: "nat \<Rightarrow> nat \<Rightarrow> PyCallbacks \<Rightarrow> GeneratedModel list \<Rightarrow> GeneratedModel list" where
  "drain idx n foc newGeneratedGeo =
     (if idx < n
      then drain (Suc idx) n foc
             (newGeneratedGeo @ [\<lparr>mInitialShapeIndex = idx, gmVertices = getVertices foc idx,
                                   gmIndices = getIndices foc idx, gmFaces = getFaces foc idx,
                                   gmReport = getReport foc idx\<rparr>])
      else newGeneratedGeo)"
  by pat_completeness auto
termination
  by (relation "measure (\<lambda>(idx, n, foc, newGeneratedGeo). n - idx)") auto

declare drain.simps [simp del]

text \<open>Lines 305-324: the in-memory encoder.\<close>

definition generatePython ::
  "Engine \<Rightarrow> PrtInitialShape option list \<Rightarrow> string list \<Rightarrow> AttributeMap option list \<Rightarrow>
   ModelGenerator \<Rightarrow> World \<Rightarrow> GeneratedModel list step" where
  "generatePython env initialShapes encoders encodersOptions mg w =
     (let foc = PyCallbacksSink (length (mInitialShapesBuilders mg));
          w1 = call_generate (GenerateCall initialShapes encoders encodersOptions foc) w
      in case generate env initialShapes encoders encodersOptions foc of
           Inl e \<Rightarrow> Throw e mg w1
         | Inr (genStat, collected) \<Rightarrow>
             (if genStat \<noteq> STATUS_OK
              then Return [] mg (LOG LOG_ERR ''prt::generate() failed'' w1)
              else Next (drain 0 (length (mInitialShapesBuilders mg)) collected []) mg w1))"

text \<open>Lines 325-351: any other encoder writes files under \<open>outputPath\<close>.\<close>

definition generateFiles ::
  "Engine \<Rightarrow> pydict \<Rightarrow> PrtInitialShape option list \<Rightarrow> string list \<Rightarrow> AttributeMap option list \<Rightarrow>
   ModelGenerator \<Rightarrow> World \<Rightarrow> GeneratedModel list step" where
  "generateFiles env geometryEncoderOptions initialShapes encoders encodersOptions mg w =
     (case cast_string_item geometryEncoderOptions ''outputPath'' of
        Inl e \<Rightarrow> Throw e mg w
      | Inr outputPath \<Rightarrow>
          (let w1 = LOG LOG_DBG (''got outputPath = '' @ outputPath) w
           in if is_directory env outputPath \<and> path_exists env outputPath
              then (let foc = FileOutputCallbacks outputPath;
                        w2 = call_generate (GenerateCall initialShapes encoders encodersOptions foc) w1
                    in case generate env initialShapes encoders encodersOptions foc of
                         Inl e \<Rightarrow> Throw e mg w2
                       | Inr (genStat, collected) \<Rightarrow>
                           (if genStat \<noteq> STATUS_OK
                            then Return [] mg (LOG LOG_ERR ''prt::generate() failed'' w2)
                            else Return [] mg w2))
              else Return [] mg
                     (LOG LOG_ERR (''The directory specified by 'outputPath' is not valid ''
                                   @ ''or does not exist: '' @ outputPath) w1)))"

text \<open>
  Lines 258-303: everything the try block does before it looks at the encoder: the PRT
  check, the resolve map, the initial shapes, the encoder set and its raw pointers.
\<close>

definition prepare ::
  "Engine \<Rightarrow> pydict list \<Rightarrow> string \<Rightarrow> string \<Rightarrow> pydict \<Rightarrow> ModelGenerator \<Rightarrow> World \<Rightarrow>
   (PrtInitialShape option list \<times> string list \<times> AttributeMap option list) step" where
  "prepare env shapeAttributes rulePackagePath geometryEncoderName geometryEncoderOptions mg w =
     andThen (checkPRT mg w) (\<lambda>_ mg w.
     andThen (resolveRulePackage env rulePackagePath mg w) (\<lambda>_ mg w.
     andThen (setAndCreateInitialShape env shapeAttributes 0
                (replicate (length (mInitialShapesBuilders mg)) None) mg w) (\<lambda>initialShapes mg w.
     andThen (setupEncoders env geometryEncoderName geometryEncoderOptions mg w) (\<lambda>_ mg w.
       (case getRawEncoderDataPointers mg of
          None \<Rightarrow> Undefined
        | Some (encoders, encodersOptions) \<Rightarrow>
            Next (initialShapes, encoders, encodersOptions) mg w)))))"

text \<open>Lines 257-352: the try block.\<close>

definition tryBlock ::
  "Engine \<Rightarrow> pydict list \<Rightarrow> string \<Rightarrow> string \<Rightarrow> pydict \<Rightarrow> ModelGenerator \<Rightarrow> World \<Rightarrow>
   GeneratedModel list step" where
  "tryBlock env shapeAttributes rulePackagePath geometryEncoderName geometryEncoderOptions mg w =
     andThen (prepare env shapeAttributes rulePackagePath geometryEncoderName
                geometryEncoderOptions mg w)
       (\<lambda>(initialShapes, encoders, encodersOptions) mg w.
          if mEncodersNames mg ! 0 = ENCODER_ID_PYTHON
          then generatePython env initialShapes encoders encodersOptions mg w
          else generateFiles env geometryEncoderOptions initialShapes encoders encodersOptions mg w)"

text \<open>Lines 249-252: more attribute dictionaries than initial shapes only warns.\<close>

definition warnTooMany :: "pydict list \<Rightarrow> ModelGenerator \<Rightarrow> World \<Rightarrow> World" where
  "warnTooMany shapeAttributes mg w =
     (if length shapeAttributes > length (mInitialShapesBuilders mg)
      then LOG LOG_WRN (''number of shape attributes dictionaries defined greater ''
                        @ ''than number of initial shapes given.'') w
      else w)"

text \<open>
  Lines 353-362: the two handlers, and \<open>return newGeneratedGeo\<close> when the try block
  runs to its end. Undefined behaviour is not an exception and is not caught.
\<close>

fun catchAll :: "GeneratedModel list step \<Rightarrow> Outcome" where
  "catchAll (Next newGeneratedGeo mg w) = Returns newGeneratedGeo mg w"
| "catchAll (Return ms mg w) = Returns ms mg w"
| "catchAll (Throw (StdException what) mg w) =
     Returns [] mg (LOG LOG_ERR (''caught exception: '' @ what) w)"
| "catchAll (Throw UnknownException mg w) =
     Returns [] mg (LOG LOG_ERR ''caught unknown exception.'' w)"
| "catchAll Undefined = UndefinedBehaviour"

definition generateModel ::
  "Engine \<Rightarrow> pydict list \<Rightarrow> string \<Rightarrow> string \<Rightarrow> pydict \<Rightarrow> ModelGenerator \<Rightarrow> World \<Rightarrow> Outcome" where
  "generateModel env shapeAttributes rulePackagePath geometryEncoderName geometryEncoderOptions mg w =
     (if \<not> mValid mg
      then Returns [] mg (LOG LOG_ERR ''invalid ModelGenerator instance.'' w)
      else if length shapeAttributes \<noteq> 1
              \<and> length shapeAttributes < length (mInitialShapesBuilders mg)
      then Returns [] mg (LOG LOG_ERR ''not enough shape attributes dictionaries defined.'' w)
      else catchAll (tryBlock env shapeAttributes rulePackagePath geometryEncoderName
                       geometryEncoderOptions mg (warnTooMany shapeAttributes mg w)))"

section \<open>generateAnotherModel (lines 365-372)\<close>

definition generateAnotherModel :: "Engine \<Rightarrow> pydict list \<Rightarrow> ModelGenerator \<Rightarrow> World \<Rightarrow> Outcome" where
  "generateAnotherModel env shapeAttributes mg w =
     (if mResolveMap mg = None
      then Returns [] mg (LOG LOG_ERR ''generate model with all required parameters'' w)
      else generateModel env shapeAttributes [] [] [] mg w)"

section \<open>What a stretch of generateModel leaves untouched\<close>

text \<open>
  \<open>keeps mg mg'\<close>: the members that no statement of \<open>generateModel\<close> assigns (the four
  shape defaults, the validity flag, the cache) are equal and the builder vector has the
  same size. \<open>quiet w w'\<close>: no call of \<open>prt::generate\<close> was made and the PRT context is
  the same.
\<close>

definition keeps :: "ModelGenerator \<Rightarrow> ModelGenerator \<Rightarrow> bool" where
  "keeps mg mg' =
     (mRuleFile mg' = mRuleFile mg \<and> mStartRule mg' = mStartRule mg \<and> mSeed mg' = mSeed mg
      \<and> mShapeName mg' = mShapeName mg \<and> mValid mg' = mValid mg \<and> mCache mg' = mCache mg
      \<and> length (mInitialShapesBuilders mg') = length (mInitialShapesBuilders mg))"

definition quiet :: "World \<Rightarrow> World \<Rightarrow> bool" where
  "quiet w w' = (generateCalls w' = generateCalls w \<and> prtCtx w' = prtCtx w)"

fun stepHolds :: "(ModelGenerator \<Rightarrow> World \<Rightarrow> bool) \<Rightarrow> 'a step \<Rightarrow> bool" where
  "stepHolds P (Next x mg w) = P mg w"
| "stepHolds P (Return ms mg w) = P mg w"
| "stepHolds P (Throw e mg w) = P mg w"
| "stepHolds P Undefined = True"

text \<open>
  What round \<open>k\<close> of the loop of \<open>setAndCreateInitialShape\<close> stores in builder slot
  \<open>k\<close>, computed on the members as the call finds them; \<open>None\<close> when that round
  does not get to \<open>setAttributes\<close>.
\<close>

definition attributed :: "Engine \<Rightarrow> pydict list \<Rightarrow> ModelGenerator \<Rightarrow> nat \<Rightarrow> InitialShapeBuilder option" where
  "attributed env shapesAttr mg k =
     (case selectShapeAttr shapesAttr k of
        None \<Rightarrow> None
      | Some shapeAttr \<Rightarrow>
          (case extractMainShapeAttributes env shapeAttr
                  (mRuleFile mg) (mStartRule mg) (mSeed mg) (mShapeName mg) of
             Inl e \<Rightarrow> None
           | Inr (ruleF, startR, randomS, shapeN, conv) \<Rightarrow>
               (case mInitialShapesBuilders mg ! k of
                  None \<Rightarrow> None
                | Some isb \<Rightarrow>
                    Some (setAttributes ruleF startR randomS shapeN conv (mResolveMap mg) isb))))"

text \<open>Every slot of the builder vector holds a builder.\<close>

definition allBuilders :: "ModelGenerator \<Rightarrow> bool" where
  "allBuilders mg = list_all (\<lambda>b. b \<noteq> None) (mInitialShapesBuilders mg)"

text \<open>
  The encoder that line 305 will find in \<open>mEncodersNames[0]\<close> is not the in-memory
  one: either this call names another encoder, or it names none and the encoder set kept
  from an earlier call starts with another encoder.
\<close>

definition fileEncoderSelected :: "string \<Rightarrow> ModelGenerator \<Rightarrow> bool" where
  "fileEncoderSelected geometryEncoderName mg =
     (if geometryEncoderName \<noteq> [] then geometryEncoderName \<noteq> ENCODER_ID_PYTHON
      else (case getRawEncoderDataPointers mg of
              None \<Rightarrow> False
            | Some _ \<Rightarrow> mEncodersNames mg ! 0 \<noteq> ENCODER_ID_PYTHON))"

text \<open>
  Lines 326-337: the directory the file output goes to, when the \<open>outputPath\<close> entry of
  the encoder options is a string naming an existing directory.
\<close>

definition outputDirectory :: "Engine \<Rightarrow> pydict \<Rightarrow> string option" where
  "outputDirectory env geometryEncoderOptions =
     (case cast_string_item geometryEncoderOptions ''outputPath'' of
        Inl e \<Rightarrow> None
      | Inr outputPath \<Rightarrow>
          (if is_directory env outputPath \<and> path_exists env outputPath
           then Some outputPath else None))"

text \<open>A stretch that, when it leaves through \<open>return\<close>, returns the empty sequence.\<close>

fun returnsEmpty :: "'a step \<Rightarrow> bool" where
  "returnsEmpty (Return ms mg w) = (ms = [])"
| "returnsEmpty (Next x mg w) = True"
| "returnsEmpty (Throw e mg w) = True"
| "returnsEmpty Undefined = True"

section \<open>Sequences of calls on one orchestrator\<close>

datatype Call =
    CallGenerateModel "pydict list" string string pydict
  | CallGenerateAnotherModel "pydict list"

fun perform :: "Engine \<Rightarrow> Call \<Rightarrow> ModelGenerator \<Rightarrow> World \<Rightarrow> Outcome" where
  "perform env (CallGenerateModel shapeAttributes rulePackagePath encName encOpt) mg w =
     generateModel env shapeAttributes rulePackagePath encName encOpt mg w"
| "perform env (CallGenerateAnotherModel shapeAttributes) mg w =
     generateAnotherModel env shapeAttributes mg w"

text \<open>
  The calls are made one after the other on the same instance; the Engine may answer
  differently from call to call, so each call comes with the Engine it meets. The result
  is the list of returned sequences, or \<open>None\<close> when a call has undefined behaviour.
\<close>

fun performAll ::
  "(Engine \<times> Call) list \<Rightarrow> ModelGenerator \<Rightarrow> World \<Rightarrow>
   (GeneratedModel list list \<times> ModelGenerator \<times> World) option" where
  "performAll [] mg w = Some ([], mg, w)"
| "performAll ((env, c) # cs) mg w =
     (case perform env c mg w of
        UndefinedBehaviour \<Rightarrow> None
      | Returns ms mg' w' \<Rightarrow>
          (case performAll cs mg' w' of
             None \<Rightarrow> None
           | Some (rs, mg'', w'') \<Rightarrow> Some (ms # rs, mg'', w'')))"

text \<open>The three ways the constructor's loop marks the instance invalid (lines 135-160).\<close>

definition shapeRejected :: "Engine \<Rightarrow> InitialShape \<Rightarrow> bool" where
  "shapeRejected env shape =
     (if mPathFlag shape
      then (if toFileURI env (mPath shape) \<noteq> []
            then resolveGeometry env (toFileURI env (mPath shape)) \<noteq> STATUS_OK
            else True)
      else setGeometry env (mVertices shape) (mIndices shape) (mFaceCounts shape) \<noteq> STATUS_OK)"

section \<open>A sample Engine for the closed examples\<close>

text \<open>
  Modelled from the spec: \<open>pcu::createAttributeMapFromPythonDict\<close> lives in utils.cpp,
  which is not among the sources. Section 6 of the specification: typed values are
  restricted to string, integer/float and bool; section 9: unsupported types are dropped.
  The theorems below hold for every Engine; this conversion is only used by the sample.
\<close>

fun convertValue :: "PyObject \<Rightarrow> AttrValue option" where
  "convertValue (PyStr s) = Some (AString s)"
| "convertValue (PyInt i) = Some (AInt (word_of_int i))"
| "convertValue (PyFloat d) = Some (AFloat d)"
| "convertValue (PyBool b) = Some (ABool b)"
| "convertValue PyOther = None"

fun attributeMapFromDict :: "pydict \<Rightarrow> AttributeMap" where
  "attributeMapFromDict [] = []"
| "attributeMapFromDict ((k, v) # d) =
     (case convertValue v of
        None \<Rightarrow> attributeMapFromDict d
      | Some a \<Rightarrow> (k, a) # attributeMapFromDict d)"

definition emptyCollector :: PyCallbacks where
  "emptyCollector = \<lparr>getVertices = (\<lambda>idx. []), getIndices = (\<lambda>idx. []),
                     getFaces = (\<lambda>idx. []), getReport = (\<lambda>idx. [])\<rparr>"

text \<open>
  An Engine that accepts every geometry with whole vertex triples, resolves the one rule
  package \<open>rules.rpk\<close>, knows the one directory \<open>/tmp/out\<close>, never throws and generates
  nothing.
\<close>

definition sampleEngine :: Engine where
  "sampleEngine =
     \<lparr>prt_init = Some PRTHandle,
      toFileURI = (\<lambda>p. if p = [] then [] else ''file:/'' @ p),
      resolveGeometry = (\<lambda>uri. if uri = ''file:/shape.obj'' then STATUS_OK else STATUS_ERROR 1),
      setGeometry = (\<lambda>v i f. if length v mod 3 = 0 then STATUS_OK else STATUS_ERROR 2),
      createResolveMap = (\<lambda>uri. if uri = ''file:/rules.rpk''
                                 then Inr (Some (ResolveMap uri), STATUS_OK)
                                 else Inr (None, STATUS_ERROR 3)),
      createAttributeMapFromPythonDict = (\<lambda>d. Inr (Some (attributeMapFromDict d))),
      createValidatedOptions = (\<lambda>enc opt. Inr opt),
      generate = (\<lambda>shapes encs opts sink. Inr (STATUS_OK, emptyCollector)),
      is_directory = (\<lambda>p. p = ''/tmp/out''),
      path_exists = (\<lambda>p. p = ''/tmp/out'')\<rparr>"

text \<open>A square, as in the README, and the process after \<open>initialize_prt\<close>.\<close>

definition square :: InitialShape where
  "square = InitialShape_geo [0, 0, 0, 0, 0, 100, 100, 0, 100, 100, 0, 0] [0, 1, 2, 3] [4]"

definition runningWorld :: World where
  "runningWorld = initializePRT sampleEngine startWorld"

text \<open>The orchestrator of the README on the square, and the arguments of its call.\<close>

definition squareGenerator :: ModelGenerator where
  "squareGenerator = fst (ModelGenerator_ctor sampleEngine [square] startWorld)"

definition readmeAttributes :: pydict where
  "readmeAttributes =
     [(''ruleFile'', PyStr ''bin/extrusion_rule.cgb''), (''startRule'', PyStr ''Default$Footprint''),
      (''shapeName'', PyStr ''myShape''), (''seed'', PyInt 555)]"

definition readmeOptions :: pydict where
  "readmeOptions = [(''emitReport'', PyBool True), (''emitGeometry'', PyBool True)]"

definition squareBuilder :: InitialShapeBuilder where
  "squareBuilder =
     \<lparr>isb_geometry = Some (InlineGeometry [0, 0, 0, 0, 0, 100, 100, 0, 100, 100, 0, 0]
                             [0, 1, 2, 3] [4]),
      isb_attributes = None\<rparr>"

text \<open>The state the README's call leaves behind with the sample Engine.\<close>

definition readmeShapeAttributes :: ShapeAttributes where
  "readmeShapeAttributes =
     \<lparr>sa_ruleFile = ''bin/extrusion_rule.cgb'', sa_startRule = ''Default$Footprint'',
      sa_seed = 555, sa_shapeName = ''myShape'',
      sa_attributes = Some [(''ruleFile'', AString ''bin/extrusion_rule.cgb''),
                            (''startRule'', AString ''Default$Footprint''),
                            (''shapeName'', AString ''myShape''), (''seed'', AInt 555)],
      sa_resolveMap = Some (ResolveMap ''file:/rules.rpk'')\<rparr>"

definition readmeGenerator :: ModelGenerator where
  "readmeGenerator =
     \<lparr>mResolveMap = Some (ResolveMap ''file:/rules.rpk''), mCache = CacheObject,
      mEncoderBuilder = Some AttributeMapBuilder,
      mEncodersOptionsPtr = [Some [(''emitReport'', ABool True), (''emitGeometry'', ABool True)]],
      mEncodersNames = [ENCODER_ID_PYTHON],
      mInitialShapesBuilders = [Some (squareBuilder\<lparr>isb_attributes := Some readmeShapeAttributes\<rparr>)],
      mRuleFile = ''bin/rule.cgb'', mStartRule = ''default$init'', mSeed = 666,
      mShapeName = ''InitialShape'', mValid = True\<rparr>"

definition readmeCall :: GenerateCall where
  "readmeCall =
     GenerateCall
       [Some (PrtInitialShape (squareBuilder\<lparr>isb_attributes := Some readmeShapeAttributes\<rparr>))]
       [ENCODER_ID_PYTHON]
       [Some [(''emitReport'', ABool True), (''emitGeometry'', ABool True)]]
       (PyCallbacksSink 1)"

definition readmeWorld :: World where
  "readmeWorld =
     \<lparr>prtCtx = Some \<lparr>mPRTHandle = Some PRTHandle\<rparr>,
      logged = [(LOG_INF, ''using rule package rules.rpk''),
                (LOG_DBG, ''resolve map = file:/rules.rpk'')],
      printed = [],
      generateCalls = [readmeCall]\<rparr>"

text \<open>The sample Engine with a \<open>prt::createResolveMap\<close> that throws.\<close>

definition throwingEngine :: Engine where
  "throwingEngine = sampleEngine\<lparr>createResolveMap := (\<lambda>uri. Inl (StdException ''bad URI''))\<rparr>"


text \<open>A file-based encoder and its options, for the sample.\<close>

definition ENCODER_ID_OBJ :: string where
  "ENCODER_ID_OBJ = ''com.esri.prt.codecs.OBJEncoder''"

definition objOptions :: pydict where
  "objOptions = [(''outputPath'', PyStr ''/tmp/out'')]"

definition objCall :: GenerateCall where
  "objCall =
     GenerateCall
       [Some (PrtInitialShape (squareBuilder\<lparr>isb_attributes := Some readmeShapeAttributes\<rparr>))]
       [ENCODER_ID_OBJ, ENCODER_ID_CGA_REPORT, ENCODER_ID_CGA_PRINT]
       [Some [(''outputPath'', AString ''/tmp/out'')],
        Some [(ENCODER_OPT_NAME, AString FILE_CGA_REPORT)], Some []]
       (FileOutputCallbacks ''/tmp/out'')"

text \<open>
  What a second call with an empty dictionary, after the README's call, gives the
  builder and the Engine.
\<close>

definition defaultShapeAttributes :: ShapeAttributes where
  "defaultShapeAttributes =
     \<lparr>sa_ruleFile = ''bin/rule.cgb'', sa_startRule = ''default$init'', sa_seed = 666,
      sa_shapeName = ''InitialShape'', sa_attributes = Some [],
      sa_resolveMap = Some (ResolveMap ''file:/rules.rpk'')\<rparr>"

definition defaultCall :: GenerateCall where
  "defaultCall =
     GenerateCall
       [Some (PrtInitialShape (squareBuilder\<lparr>isb_attributes := Some defaultShapeAttributes\<rparr>))]
       [ENCODER_ID_PYTHON]
       [Some [(''emitReport'', ABool True), (''emitGeometry'', ABool True)]]
       (PyCallbacksSink 1)"

section \<open>Properties of the InitialShape constructor\<close>

lemma iota_length: "iota i n val xs = Some ys \<Longrightarrow> length ys = length xs"
proof (induction i n val xs rule: iota.induct)
  case (1 i n val xs)
  then show ?case
    by (subst (asm) (2) iota.simps) (auto split: if_splits)
qed

lemma iota_overflow:
  "i < n \<Longrightarrow> 0 \<le> val \<Longrightarrow> INT_MAX < val + int (n - i) \<Longrightarrow> iota i n val xs = None"
proof (induction i n val xs rule: iota.induct)
  case (1 i n val xs)
  show ?case
  proof (cases "val + 1 > INT_MAX")
    case True
    with "1.prems" show ?thesis by (subst iota.simps) simp
  next
    case False
    with "1.prems" have "Suc i < n" by (cases "Suc i = n") auto
    with "1.prems" False have "iota (Suc i) n (val + 1) (xs[i := word_of_int val]) = None"
      by (intro "1.IH") auto
    with "1.prems" False show ?thesis by (subst iota.simps) simp
  qed
qed

lemma iota_fills:
  "i \<le> n \<Longrightarrow> length xs = n \<Longrightarrow> n \<le> nat INT_MAX \<Longrightarrow>
   iota i n (int i) xs = Some (take i xs @ map word_of_nat [i ..< n])"
proof (induction i n "int i" xs rule: iota.induct)
  case (1 i n xs)
  show ?case
  proof (cases "i < n")
    case False
    with "1.prems" show ?thesis by (subst iota.simps) simp
  next
    case True
    with "1.prems" have ok: "\<not> int i + 1 > INT_MAX" by (simp add: INT_MAX_def)
    have "iota (Suc i) n (int (Suc i)) (xs[i := word_of_int (int i)])
          = Some (take (Suc i) (xs[i := word_of_int (int i)]) @ map word_of_nat [Suc i ..< n])"
      using True ok "1.prems" by (intro "1.hyps") auto
    moreover have "take (Suc i) (xs[i := word_of_int (int i)]) = take i xs @ [word_of_nat i]"
      using True "1.prems" by (simp add: take_Suc_conv_app_nth)
    moreover have "[i ..< n] = i # [Suc i ..< n]"
      using True by (simp add: upt_conv_Cons)
    ultimately show ?thesis
      using True ok by (subst iota.simps) (simp add: add.commute)
  qed
qed

lemma unat_word_of_nat_upt:
  "n \<le> 2 ^ 32 \<Longrightarrow> map unat (map (word_of_nat :: nat \<Rightarrow> uint32_t) [0 ..< n]) = [0 ..< n]"
  by (rule nth_equalityI) (auto simp: unat_of_nat take_bit_nat_eq_self_iff)

text \<open>
  C9 (as amended): for every vertex list with at most \<open>INT_MAX\<close> vertex triples, the
  one-argument constructor keeps the vertices, numbers the indices
  \<open>0, 1, ..., |v|/3 - 1\<close> in order and gives the single face count \<open>|v|/3\<close>.
\<close>

theorem InitialShape_vert_default_indexing:
  "length v div 3 < 2 ^ 31 \<Longrightarrow> default_indexing v"
proof -
  assume b: "length v div 3 < 2 ^ 31"
  let ?n = "length v div 3"
  have n: "?n \<le> nat INT_MAX" using b by (simp add: INT_MAX_def)
  have "iota 0 ?n (int 0) (replicate ?n 0) = Some (take 0 (replicate ?n 0) @ map word_of_nat [0 ..< ?n])"
    using n by (intro iota_fills) auto
  then have i: "iota 0 ?n 0 (replicate ?n 0) = Some (map word_of_nat [0 ..< ?n])"
    by simp
  have le: "?n \<le> 2 ^ 32" using b by simp
  have u: "unat (word_of_nat ?n :: uint32_t) = ?n"
    using b by (simp add: unat_of_nat take_bit_nat_eq_self_iff)
  show ?thesis
    using unat_word_of_nat_upt [OF le] u
    by (simp add: default_indexing_def InitialShape_vert_def i)
qed

theorem InitialShape_vert_default_indexing_witness:
  "default_indexing [0, 0, 0, 0, 0, 100, 100, 0, 100, 100, 0, 0]
   \<and> map_option mIndices (InitialShape_vert [0, 0, 0, 0, 0, 100, 100, 0, 100, 100, 0, 0])
       = Some [0, 1, 2, 3]
   \<and> map_option mFaceCounts (InitialShape_vert [0, 0, 0, 0, 0, 100, 100, 0, 100, 100, 0, 0])
       = Some [4]"
proof -
  let ?v = "[0, 0, 0, 0, 0, 100, 100, 0, 100, 100, 0, 0] :: double list"
  have "length ?v div 3 < 2 ^ 31" by simp
  then have d: "default_indexing ?v" by (rule InitialShape_vert_default_indexing)
  have "iota 0 4 0 (replicate 4 0) = Some [0, 1, 2, 3]"
    by (simp add: iota.simps INT_MAX_def numeral_eq_Suc)
  then show ?thesis using d by (simp add: InitialShape_vert_def)
qed

text \<open>
  C9 as stated, for every vertex list, fails: with \<open>2 ^ 32\<close> vertex triples the counter of
  \<open>iota\<close> overflows on its way, and the face count \<open>(uint32_t)mIndices.size()\<close> is
  \<open>0\<close>, since no \<open>uint32_t\<close> can hold \<open>2 ^ 32\<close>.
\<close>

theorem InitialShape_vert_counterexample:
  "\<not> default_indexing (replicate (3 * 2 ^ 32) 0)
   \<and> InitialShape_vert (replicate (3 * 2 ^ 32) 0) = None
   \<and> (word_of_nat (length (replicate (3 * 2 ^ 32) (0 :: double)) div 3) :: uint32_t) = 0"
proof -
  have "iota 0 (2 ^ 32) 0 (replicate (2 ^ 32) 0) = None"
    by (rule iota_overflow) (simp_all add: INT_MAX_def)
  then show ?thesis
    by (simp add: default_indexing_def InitialShape_vert_def)
qed

lemma LOG_fields [simp]:
  "prtCtx (LOG lvl msg w) = prtCtx w"
  "generateCalls (LOG lvl msg w) = generateCalls w"
  "printed (LOG lvl msg w) = printed w"
  "logged (LOG lvl msg w) = logged w @ [(lvl, msg)]"
  by (simp_all add: LOG_def)

lemma py_print_fields [simp]:
  "prtCtx (py_print msg w) = prtCtx w"
  "generateCalls (py_print msg w) = generateCalls w"
  "logged (py_print msg w) = logged w"
  by (simp_all add: py_print_def)

lemma call_generate_fields [simp]:
  "prtCtx (call_generate c w) = prtCtx w"
  "generateCalls (call_generate c w) = generateCalls w @ [c]"
  "logged (call_generate c w) = logged w"
  by (simp_all add: call_generate_def)

lemma keeps_refl [simp]: "keeps mg mg"
  by (simp add: keeps_def)

lemma keeps_trans: "keeps a b \<Longrightarrow> keeps b c \<Longrightarrow> keeps a c"
  by (simp add: keeps_def)

lemma quiet_refl [simp]: "quiet w w"
  by (simp add: quiet_def)

lemma quiet_trans: "quiet a b \<Longrightarrow> quiet b c \<Longrightarrow> quiet a c"
  by (simp add: quiet_def)

lemma quiet_LOG [simp]: "quiet w (LOG lvl msg w') = quiet w w'"
  by (simp add: quiet_def)

lemma quiet_py_print [simp]: "quiet w (py_print msg w') = quiet w w'"
  by (simp add: quiet_def)

lemma stepHolds_keeps_pre:
  "keeps mg mg1 \<Longrightarrow> stepHolds (\<lambda>mg' w'. keeps mg1 mg' \<and> Q w') s \<Longrightarrow>
   stepHolds (\<lambda>mg' w'. keeps mg mg' \<and> Q w') s"
  by (cases s) (auto intro: keeps_trans)

lemma stepHolds_andThen:
  assumes "stepHolds (\<lambda>mg' w'. keeps mg mg' \<and> quiet w w') s"
    and "\<And>x mg1 w1. s = Next x mg1 w1 \<Longrightarrow> stepHolds (\<lambda>mg' w'. keeps mg1 mg' \<and> quiet w1 w') (f x mg1 w1)"
  shows "stepHolds (\<lambda>mg' w'. keeps mg mg' \<and> quiet w w') (andThen s f)"
proof (cases s)
  case (Next x mg1 w1)
  with assms(1) have k: "keeps mg mg1" "quiet w w1" by simp_all
  from assms(2) [OF Next] show ?thesis
    using Next k by (cases "f x mg1 w1") (auto intro: keeps_trans quiet_trans)
qed (use assms(1) in auto)

lemma checkPRT_frame: "stepHolds (\<lambda>mg' w'. keeps mg mg' \<and> quiet w w') (checkPRT mg w)"
  by (simp add: checkPRT_def)

lemma checkResolveMap_frame:
  "stepHolds (\<lambda>mg' w'. keeps mg mg' \<and> quiet w w') (checkResolveMap rpk status mg w)"
  by (simp add: checkResolveMap_def split: option.split)

lemma resolveRulePackage_frame:
  "stepHolds (\<lambda>mg' w'. keeps mg mg' \<and> quiet w w') (resolveRulePackage env rpk mg w)"
proof -
  have a: "stepHolds (\<lambda>mg' w'. keeps mg mg' \<and> quiet w w') (checkResolveMap rpk status mg1 w1)"
    if "keeps mg mg1" "quiet w w1" for status mg1 w1
  proof -
    have "stepHolds (\<lambda>mg' w'. keeps mg1 mg' \<and> quiet w1 w') (checkResolveMap rpk status mg1 w1)"
      by (rule checkResolveMap_frame)
    then show ?thesis using that
      by (cases "checkResolveMap rpk status mg1 w1") (auto intro: keeps_trans quiet_trans)
  qed
  show ?thesis
  proof (cases "rpk = []")
    case True
    then show ?thesis by (simp add: resolveRulePackage_def)
  next
    case False
    show ?thesis
    proof (cases "createResolveMap env (toFileURI env rpk)")
      case (Inl e)
      then show ?thesis
        using False by (cases e) (simp_all add: resolveRulePackage_def a)
    next
      case (Inr p)
      obtain rm status where p: "p = (rm, status)" by (cases p) auto
      have "keeps mg (mg\<lparr>mResolveMap := rm\<rparr>)" by (simp add: keeps_def)
      then show ?thesis
        using False Inr p by (simp add: resolveRulePackage_def a)
    qed
  qed
qed

lemma setAndCreateInitialShape_frame:
  "stepHolds (\<lambda>mg' w'. keeps mg mg' \<and> w' = w) (setAndCreateInitialShape env sa ind shapes mg w)"
proof (induction env sa ind shapes mg w rule: setAndCreateInitialShape.induct)
  case (1 env sa ind shapes mg w)
  show ?case
  proof (cases "ind < length (mInitialShapesBuilders mg)")
    case False
    then show ?thesis by (subst setAndCreateInitialShape.simps) simp
  next
    case True
    show ?thesis
    proof (cases "selectShapeAttr sa ind")
      case None
      with True show ?thesis by (subst setAndCreateInitialShape.simps) simp
    next
      case (Some shapeAttr)
      show ?thesis
      proof (cases "extractMainShapeAttributes env shapeAttr (mRuleFile mg) (mStartRule mg) (mSeed mg) (mShapeName mg)")
        case (Inl e)
        with True Some show ?thesis by (subst setAndCreateInitialShape.simps) simp
      next
        case (Inr t)
        obtain ruleF startR randomS shapeN conv where t: "t = (ruleF, startR, randomS, shapeN, conv)"
          by (cases t) auto
        show ?thesis
        proof (cases "mInitialShapesBuilders mg ! ind")
          case None
          with True Some Inr t show ?thesis by (subst setAndCreateInitialShape.simps) simp
        next
          case (Some isb)
          let ?mg1 = "mg\<lparr>mInitialShapesBuilders := (mInitialShapesBuilders mg)
                        [ind := Some (setAttributes ruleF startR randomS shapeN conv (mResolveMap mg) isb)]\<rparr>"
          let ?r = "setAndCreateInitialShape env sa (Suc ind)
                      (shapes[ind := Some (createInitialShape
                         (setAttributes ruleF startR randomS shapeN conv (mResolveMap mg) isb))]) ?mg1 w"
          have ih: "stepHolds (\<lambda>mg' w'. keeps ?mg1 mg' \<and> w' = w) ?r"
            using True \<open>selectShapeAttr sa ind = Some shapeAttr\<close> Inr t Some
            by (intro "1.IH") auto
          have k: "keeps mg ?mg1" by (simp add: keeps_def)
          have "stepHolds (\<lambda>mg' w'. keeps mg mg' \<and> w' = w) ?r"
            using ih k by (cases ?r) (auto intro: keeps_trans)
          then show ?thesis
            using True \<open>selectShapeAttr sa ind = Some shapeAttr\<close> Inr t Some
            by (subst setAndCreateInitialShape.simps) simp
        qed
      qed
    qed
  qed
qed

lemma initializeEncoderData_frame:
  "stepHolds (\<lambda>mg' w'. keeps mg mg' \<and> w' = w) (initializeEncoderData env encName encOpt mg w)"
  unfolding initializeEncoderData_def Let_def
  by (auto split: sum.split simp: keeps_def)

lemma setupEncoders_frame:
  "stepHolds (\<lambda>mg' w'. keeps mg mg' \<and> w' = w) (setupEncoders env encName encOpt mg w)"
proof -
  have "stepHolds (\<lambda>mg' w'. keeps mg mg' \<and> w' = w)
          (initializeEncoderData env encName encOpt (mg\<lparr>mEncoderBuilder := b\<rparr>) w)" for b
    by (rule stepHolds_keeps_pre [OF _ initializeEncoderData_frame]) (simp add: keeps_def)
  moreover have "stepHolds (\<lambda>mg' w'. keeps mg mg' \<and> w' = w)
          (initializeEncoderData env encName encOpt mg w)"
    by (rule initializeEncoderData_frame)
  ultimately show ?thesis
    by (simp add: setupEncoders_def Let_def keeps_def)
qed


lemma stepHolds_mono:
  "stepHolds P s \<Longrightarrow> (\<And>mg w. P mg w \<Longrightarrow> Q mg w) \<Longrightarrow> stepHolds Q s"
  by (cases s) auto

lemma prepare_frame:
  "stepHolds (\<lambda>mg' w'. keeps mg mg' \<and> quiet w w') (prepare env sa rpk enc opts mg w)"
  unfolding prepare_def
proof (intro stepHolds_andThen)
  show "stepHolds (\<lambda>mg' w'. keeps mg mg' \<and> quiet w w') (checkPRT mg w)"
    by (rule checkPRT_frame)
next
  fix mg1 w1
  show "stepHolds (\<lambda>mg' w'. keeps mg1 mg' \<and> quiet w1 w') (resolveRulePackage env rpk mg1 w1)"
    by (rule resolveRulePackage_frame)
next
  fix mg2 w2
  show "stepHolds (\<lambda>mg' w'. keeps mg2 mg' \<and> quiet w2 w')
          (setAndCreateInitialShape env sa 0 (replicate (length (mInitialShapesBuilders mg2)) None) mg2 w2)"
    by (rule stepHolds_mono [OF setAndCreateInitialShape_frame]) simp
next
  fix mg3 w3
  show "stepHolds (\<lambda>mg' w'. keeps mg3 mg' \<and> quiet w3 w') (setupEncoders env enc opts mg3 w3)"
    by (rule stepHolds_mono [OF setupEncoders_frame]) simp
next
  fix x :: "PrtInitialShape option list" and mg4 w4
  show "stepHolds (\<lambda>mg' w'. keeps mg4 mg' \<and> quiet w4 w')
          (case getRawEncoderDataPointers mg4 of None \<Rightarrow> Undefined
           | Some (encoders, encodersOptions) \<Rightarrow> Next (x, encoders, encodersOptions) mg4 w4)"
    by (simp split: option.split prod.split)
qed

lemma generatePython_keeps:
  "stepHolds (\<lambda>mg' w'. mg' = mg \<and> prtCtx w' = prtCtx w) (generatePython env shapes encs eopts mg w)"
  by (simp add: generatePython_def Let_def split: sum.split prod.split)

lemma generateFiles_keeps:
  "stepHolds (\<lambda>mg' w'. mg' = mg \<and> prtCtx w' = prtCtx w) (generateFiles env opts shapes encs eopts mg w)"
  by (simp add: generateFiles_def Let_def split: sum.split prod.split)

lemma tryBlock_keeps:
  "stepHolds (\<lambda>mg' w'. keeps mg mg' \<and> prtCtx w' = prtCtx w) (tryBlock env sa rpk enc opts mg w)"
proof (cases "prepare env sa rpk enc opts mg w")
  case (Next x mg1 w1)
  obtain shapes encs eopts where x: "x = (shapes, encs, eopts)" by (cases x) auto
  from prepare_frame [of mg w env sa rpk enc opts] Next
  have k: "keeps mg mg1" "prtCtx w1 = prtCtx w" by (simp_all add: quiet_def)
  have "stepHolds (\<lambda>mg' w'. keeps mg mg' \<and> prtCtx w' = prtCtx w) s"
    if "stepHolds (\<lambda>mg' w'. mg' = mg1 \<and> prtCtx w' = prtCtx w1) s" for s :: "GeneratedModel list step"
    using that k by (cases s) auto
  then show ?thesis
    using Next x generatePython_keeps generateFiles_keeps by (simp add: tryBlock_def)
next
  case (Return ms mg1 w1)
  with prepare_frame [of mg w env sa rpk enc opts] show ?thesis
    by (simp add: tryBlock_def quiet_def)
next
  case (Throw e mg1 w1)
  with prepare_frame [of mg w env sa rpk enc opts] show ?thesis
    by (simp add: tryBlock_def quiet_def)
next
  case Undefined
  then show ?thesis by (simp add: tryBlock_def)
qed

lemma generateModel_invalid:
  "\<not> mValid mg \<Longrightarrow>
   generateModel env sa rpk enc opts mg w
   = Returns [] mg (LOG LOG_ERR ''invalid ModelGenerator instance.'' w)"
  by (simp add: generateModel_def)

lemma generateModel_rejects:
  "mValid mg \<Longrightarrow> length sa \<noteq> 1 \<Longrightarrow> length sa < length (mInitialShapesBuilders mg) \<Longrightarrow>
   generateModel env sa rpk enc opts mg w
   = Returns [] mg (LOG LOG_ERR ''not enough shape attributes dictionaries defined.'' w)"
  unfolding generateModel_def by auto

lemma generateModel_passes:
  "mValid mg \<Longrightarrow> length sa = 1 \<or> length (mInitialShapesBuilders mg) \<le> length sa \<Longrightarrow>
   generateModel env sa rpk enc opts mg w
   = catchAll (tryBlock env sa rpk enc opts mg (warnTooMany sa mg w))"
  unfolding generateModel_def by auto

lemma generateModel_cases:
  fixes mg :: ModelGenerator and sa :: "pydict list"
  obtains (invalid) "\<not> mValid mg"
    | (rejects) "mValid mg" "length sa \<noteq> 1" "length sa < length (mInitialShapesBuilders mg)"
    | (passes) "mValid mg" "length sa = 1 \<or> length (mInitialShapesBuilders mg) \<le> length sa"
  by fastforce

lemma warnTooMany_fields [simp]:
  "prtCtx (warnTooMany sa mg w) = prtCtx w"
  "generateCalls (warnTooMany sa mg w) = generateCalls w"
  by (simp_all add: warnTooMany_def)

lemma catchAll_Returns:
  "catchAll s = Returns ms mg' w' \<Longrightarrow> stepHolds (\<lambda>mg w. P mg \<and> Q (prtCtx w) (generateCalls w)) s \<Longrightarrow>
   P mg' \<and> Q (prtCtx w') (generateCalls w')"
  by (cases s rule: catchAll.cases) auto

lemma generateModel_keeps:
  assumes "generateModel env sa rpk enc opts mg w = Returns ms mg' w'"
  shows "keeps mg mg' \<and> prtCtx w' = prtCtx w"
proof (cases rule: generateModel_cases [where mg = mg and sa = sa])
  case invalid
  with assms show ?thesis by (auto simp: generateModel_invalid)
next
  case rejects
  with assms show ?thesis by (auto simp: generateModel_rejects)
next
  case passes
  with assms have c: "catchAll (tryBlock env sa rpk enc opts mg (warnTooMany sa mg w)) = Returns ms mg' w'"
    by (simp add: generateModel_passes)
  have "stepHolds (\<lambda>mg' w'. keeps mg mg' \<and> prtCtx w' = prtCtx w)
          (tryBlock env sa rpk enc opts mg (warnTooMany sa mg w))"
    using tryBlock_keeps [of mg "warnTooMany sa mg w" env sa rpk enc opts] by simp
  from catchAll_Returns [OF c, where P = "keeps mg" and Q = "\<lambda>p c. p = prtCtx w", OF this]
  show ?thesis .
qed

text \<open>The constructor.\<close>

lemma ctor_body_facts:
  assumes "ctor_body env shape ind mg w = (mg', w')"
  shows "mValid mg' = (mValid mg \<and> \<not> shapeRejected env shape)"
    and "mResolveMap mg' = mResolveMap mg"
    and "mEncodersNames mg' = mEncodersNames mg"
    and "mEncodersOptionsPtr mg' = mEncodersOptionsPtr mg"
    and "mRuleFile mg' = mRuleFile mg" and "mStartRule mg' = mStartRule mg"
    and "mSeed mg' = mSeed mg" and "mShapeName mg' = mShapeName mg"
    and "length (mInitialShapesBuilders mg') = length (mInitialShapesBuilders mg)"
    and "quiet w w'"
  using assms
  by (auto simp: ctor_body_def shapeRejected_def Let_def split: if_splits)

lemma ctor_loop_facts:
  assumes "ctor_loop env myGeo ind mg w = (mg', w')"
  shows "mValid mg' = (mValid mg \<and> \<not> (\<exists>shape \<in> set (drop ind myGeo). shapeRejected env shape))
    \<and> mResolveMap mg' = mResolveMap mg
    \<and> mEncodersNames mg' = mEncodersNames mg
    \<and> mEncodersOptionsPtr mg' = mEncodersOptionsPtr mg
    \<and> mRuleFile mg' = mRuleFile mg \<and> mStartRule mg' = mStartRule mg
    \<and> mSeed mg' = mSeed mg \<and> mShapeName mg' = mShapeName mg
    \<and> length (mInitialShapesBuilders mg') = length (mInitialShapesBuilders mg)
    \<and> quiet w w'"
  using assms
proof (induction env myGeo ind mg w rule: ctor_loop.induct)
  case (1 env myGeo ind mg w)
  show ?case
  proof (cases "ind < length myGeo")
    case False
    with "1.prems" show ?thesis by (subst (asm) ctor_loop.simps) simp
  next
    case True
    obtain mg1 w1 where b: "ctor_body env (myGeo ! ind) ind mg w = (mg1, w1)"
      by (cases "ctor_body env (myGeo ! ind) ind mg w") auto
    from "1.prems" True b have l: "ctor_loop env myGeo (Suc ind) mg1 w1 = (mg', w')"
      by (subst (asm) ctor_loop.simps) simp
    note ih = "1.IH" [OF True b [symmetric] l]
    have d: "drop ind myGeo = myGeo ! ind # drop (Suc ind) myGeo"
      using True by (simp add: Cons_nth_drop_Suc)
    show ?thesis
      using ih ctor_body_facts [OF b] unfolding d
      by (auto intro: quiet_trans)
  qed
qed

lemma ModelGenerator_ctor_facts:
  assumes "ModelGenerator_ctor env myGeo w = (mg, w')"
  shows "mValid mg = (\<not> (\<exists>shape \<in> set myGeo. shapeRejected env shape))"
    and "mResolveMap mg = None" and "mEncodersNames mg = []" and "mEncodersOptionsPtr mg = []"
    and "mSeed mg = 666" and "mShapeName mg = ''InitialShape''"
    and "mRuleFile mg = ''bin/rule.cgb''" and "mStartRule mg = ''default$init''"
    and "length (mInitialShapesBuilders mg) = length myGeo"
    and "quiet w w'"
  using ctor_loop_facts [OF assms [unfolded ModelGenerator_ctor_def]]
  by (simp_all add: newModelGenerator_def)

lemma perform_invalid:
  assumes "\<not> mValid mg"
  shows "\<exists>msg. perform env c mg w = Returns [] mg (LOG LOG_ERR msg w)"
  using assms by (cases c) (auto simp: generateAnotherModel_def generateModel_invalid)

lemma performAll_invalid:
  assumes "\<not> mValid mg"
  shows "\<exists>w'. performAll calls mg w = Some (replicate (length calls) [], mg, w')
              \<and> generateCalls w' = generateCalls w"
proof (induction calls arbitrary: w)
  case Nil
  show ?case by simp
next
  case (Cons ec calls)
  obtain env c where ec: "ec = (env, c)" by (cases ec) auto
  from perform_invalid [OF assms, of env c w]
  obtain msg where p: "perform env c mg w = Returns [] mg (LOG LOG_ERR msg w)" by blast
  from Cons.IH [of "LOG LOG_ERR msg w"]
  obtain w' where "performAll calls mg (LOG LOG_ERR msg w) = Some (replicate (length calls) [], mg, w')"
    and "generateCalls w' = generateCalls w" by auto
  with p ec show ?case by simp
qed

section \<open>Evaluating the sample\<close>

lemma sample_fields [simp]:
  "prt_init sampleEngine = Some PRTHandle"
  "toFileURI sampleEngine p = (if p = [] then [] else ''file:/'' @ p)"
  "resolveGeometry sampleEngine uri = (if uri = ''file:/shape.obj'' then STATUS_OK else STATUS_ERROR 1)"
  "setGeometry sampleEngine v i f = (if length v mod 3 = 0 then STATUS_OK else STATUS_ERROR 2)"
  "createResolveMap sampleEngine uri = (if uri = ''file:/rules.rpk''
                                 then Inr (Some (ResolveMap uri), STATUS_OK)
                                 else Inr (None, STATUS_ERROR 3))"
  "createAttributeMapFromPythonDict sampleEngine d = Inr (Some (attributeMapFromDict d))"
  "createValidatedOptions sampleEngine enc opt = Inr opt"
  "generate sampleEngine shapes encs opts sink = Inr (STATUS_OK, emptyCollector)"
  "is_directory sampleEngine p = (p = ''/tmp/out'')"
  "path_exists sampleEngine p = (p = ''/tmp/out'')"
  by (simp_all add: sampleEngine_def)

lemmas generateModel_eval =
  generateModel_def tryBlock_def prepare_def checkPRT_def resolveRulePackage_def
  checkResolveMap_def setAndCreateInitialShape.simps selectShapeAttr_def
  extractMainShapeAttributes_def hasKey_def getType_def getString_def getInt_def
  setAttributes_def createInitialShape_def setupEncoders_def initializeEncoderData_def
  getRawEncoderDataPointers_def generatePython_def generateFiles_def cast_string_item_def
  drain.simps warnTooMany_def LOG_def py_print_def call_generate_def Let_def
  ENCODER_ID_PYTHON_def ENCODER_ID_CGA_REPORT_def ENCODER_ID_CGA_PRINT_def
  ENCODER_OPT_NAME_def FILE_CGA_REPORT_def

lemma sample_ctor:
  "ModelGenerator_ctor sampleEngine [square] w
   = ((newModelGenerator 1)\<lparr>mInitialShapesBuilders := [Some squareBuilder]\<rparr>, w)"
  by (simp add: ModelGenerator_ctor_def ctor_loop.simps ctor_body_def square_def
        InitialShape_geo_def newModelGenerator_def squareBuilder_def)

lemma squareGenerator_eq:
  "squareGenerator = (newModelGenerator 1)\<lparr>mInitialShapesBuilders := [Some squareBuilder]\<rparr>"
  by (simp add: squareGenerator_def sample_ctor)

lemma runningWorld_eq:
  "runningWorld = \<lparr>prtCtx = Some \<lparr>mPRTHandle = Some PRTHandle\<rparr>, logged = [], printed = [],
                    generateCalls = []\<rparr>"
  by (simp add: runningWorld_def initializePRT_def startWorld_def)

lemma readme_generate:
  "generateModel sampleEngine [readmeAttributes] ''rules.rpk'' ENCODER_ID_PYTHON readmeOptions
     squareGenerator runningWorld
   = Returns [\<lparr>mInitialShapeIndex = 0, gmVertices = [], gmIndices = [], gmFaces = [],
               gmReport = []\<rparr>] readmeGenerator readmeWorld"
  by (simp add: generateModel_eval squareGenerator_eq runningWorld_eq newModelGenerator_def
        readmeAttributes_def readmeOptions_def readmeGenerator_def readmeWorld_def
        readmeCall_def readmeShapeAttributes_def emptyCollector_def)

section \<open>Calls that stop before the Engine is reached\<close>

text \<open>
  C10: a generate call made while the PRT context is not initialized (the process never
  called \<open>initialize_prt\<close>, or called \<open>shutdown_prt\<close> since) returns the empty
  sequence, ends its log with an error, leaves the orchestrator as it was and makes no
  call of \<open>prt::generate\<close>. The instance-validity check and the attribute-count check
  come first: their error is the one reported when they fail.
\<close>

theorem generateModel_prt_not_initialized:
  "\<not> isPRTInitialized startWorld \<and> \<not> isPRTInitialized (shutdownPRT w0)
   \<and> (\<not> isPRTInitialized w \<longrightarrow>
        (let w' = (if \<not> mValid mg
                   then LOG LOG_ERR ''invalid ModelGenerator instance.'' w
                   else if length sa \<noteq> 1 \<and> length sa < length (mInitialShapesBuilders mg)
                   then LOG LOG_ERR ''not enough shape attributes dictionaries defined.'' w
                   else LOG LOG_ERR ''prt has not been initialized.'' (warnTooMany sa mg w))
         in generateModel env sa rpk enc opts mg w = Returns [] mg w'
            \<and> generateCalls w' = generateCalls w
            \<and> fst (last (logged w')) = LOG_ERR))"
proof -
  have "generateModel env sa rpk enc opts mg w
        = Returns [] mg (LOG LOG_ERR ''prt has not been initialized.'' (warnTooMany sa mg w))"
    if "prtCtx w = None" "mValid mg"
       "length sa = 1 \<or> length (mInitialShapesBuilders mg) \<le> length sa"
    using that by (simp add: generateModel_passes tryBlock_def prepare_def checkPRT_def)
  moreover have "length sa = 1 \<or> length (mInitialShapesBuilders mg) \<le> length sa"
    if "\<not> (length sa \<noteq> 1 \<and> length sa < length (mInitialShapesBuilders mg))"
    using that by auto
  ultimately show ?thesis
    by (simp add: isPRTInitialized_def startWorld_def shutdownPRT_def Let_def
          generateModel_invalid generateModel_rejects)
qed

theorem generateModel_prt_not_initialized_witness:
  "\<not> isPRTInitialized startWorld
   \<and> generateModel sampleEngine [readmeAttributes] ''rules.rpk'' ENCODER_ID_PYTHON readmeOptions
        squareGenerator startWorld
     = Returns [] squareGenerator (LOG LOG_ERR ''prt has not been initialized.'' startWorld)
   \<and> generateModel sampleEngine [] ''rules.rpk'' ENCODER_ID_PYTHON readmeOptions
        squareGenerator (shutdownPRT runningWorld)
     = Returns [] squareGenerator
         (LOG LOG_ERR ''not enough shape attributes dictionaries defined.''
            (shutdownPRT runningWorld))"
proof -
  have a: "\<not> isPRTInitialized startWorld" and b: "\<not> isPRTInitialized (shutdownPRT runningWorld)"
    by (simp_all add: isPRTInitialized_def startWorld_def shutdownPRT_def)
  have v: "mValid squareGenerator" "length (mInitialShapesBuilders squareGenerator) = 1"
    by (simp_all add: squareGenerator_eq newModelGenerator_def)
  show ?thesis
    using a v
      generateModel_prt_not_initialized [of startWorld startWorld squareGenerator
        "[readmeAttributes]" sampleEngine "''rules.rpk''" ENCODER_ID_PYTHON readmeOptions]
      generateModel_prt_not_initialized [of startWorld "shutdownPRT runningWorld" squareGenerator
        "[]" sampleEngine "''rules.rpk''" ENCODER_ID_PYTHON readmeOptions]
    by (simp add: Let_def warnTooMany_def b)
qed

text \<open>
  C3: when the constructor meets an initial shape it rejects (a file path whose URI is
  empty, a geometry file the Engine cannot resolve, inline buffers the Engine refuses),
  it still returns an instance, marked invalid; every later call on that instance,
  \<open>generateModel\<close> or \<open>generateAnotherModel\<close>, whatever the Engine would answer,
  returns the empty sequence, leaves the instance invalid and calls \<open>prt::generate\<close>
  not once.
\<close>

theorem invalid_instance_is_sticky:
  assumes "\<exists>shape \<in> set myGeo. shapeRejected env shape"
    and "ModelGenerator_ctor env myGeo w0 = (mg, w)"
  shows "\<not> mValid mg
         \<and> (\<exists>w'. performAll calls mg w = Some (replicate (length calls) [], mg, w')
                  \<and> generateCalls w' = generateCalls w)"
proof -
  from ModelGenerator_ctor_facts(1) [OF assms(2)] assms(1) have "\<not> mValid mg" by simp
  with performAll_invalid [of mg calls w] show ?thesis by simp
qed

theorem invalid_instance_is_sticky_witness:
  "shapeRejected sampleEngine (InitialShape_path [])
   \<and> \<not> mValid (fst (ModelGenerator_ctor sampleEngine [square, InitialShape_path []] runningWorld))
   \<and> map_option fst
        (performAll
           [(sampleEngine, CallGenerateModel [readmeAttributes] ''rules.rpk'' ENCODER_ID_PYTHON
                             readmeOptions),
            (sampleEngine, CallGenerateAnotherModel [readmeAttributes])]
           (fst (ModelGenerator_ctor sampleEngine [square, InitialShape_path []] runningWorld))
           (snd (ModelGenerator_ctor sampleEngine [square, InitialShape_path []] runningWorld)))
      = Some [[], []]"
proof -
  have r: "shapeRejected sampleEngine (InitialShape_path [])"
    by (simp add: shapeRejected_def InitialShape_path_def)
  then have e: "\<exists>shape \<in> set [square, InitialShape_path []]. shapeRejected sampleEngine shape"
    by simp
  have c: "ModelGenerator_ctor sampleEngine [square, InitialShape_path []] runningWorld
           = (fst (ModelGenerator_ctor sampleEngine [square, InitialShape_path []] runningWorld),
              snd (ModelGenerator_ctor sampleEngine [square, InitialShape_path []] runningWorld))"
    by simp
  let ?calls = "[(sampleEngine, CallGenerateModel [readmeAttributes] ''rules.rpk'' ENCODER_ID_PYTHON
                                  readmeOptions),
                 (sampleEngine, CallGenerateAnotherModel [readmeAttributes])]"
  from invalid_instance_is_sticky [OF e c, of ?calls]
  obtain w' where "\<not> mValid (fst (ModelGenerator_ctor sampleEngine [square, InitialShape_path []] runningWorld))"
    and "performAll ?calls
           (fst (ModelGenerator_ctor sampleEngine [square, InitialShape_path []] runningWorld))
           (snd (ModelGenerator_ctor sampleEngine [square, InitialShape_path []] runningWorld))
         = Some (replicate (length ?calls) [],
                 fst (ModelGenerator_ctor sampleEngine [square, InitialShape_path []] runningWorld), w')"
    by blast
  with r show ?thesis by (simp del: performAll.simps)
qed



lemma throwing_fields [simp]:
  "createResolveMap throwingEngine uri = Inl (StdException ''bad URI'')"
  "toFileURI throwingEngine = toFileURI sampleEngine"
  by (simp_all add: throwingEngine_def)

lemma andThen_assoc:
  "andThen (andThen s f) g = andThen s (\<lambda>x mg w. andThen (f x mg w) g)"
  by (cases s) simp_all

lemma checkResolveMap_fails:
  "mResolveMap mg = None \<or> status \<noteq> STATUS_OK \<Longrightarrow>
   checkResolveMap rpk status mg w
   = Return [] mg (LOG LOG_ERR (''getting resolve map from '' @ rpk @ '' failed, aborting.'') w)"
  by (auto simp: checkResolveMap_def split: option.split)

lemma tryBlock_resolve_stops:
  assumes "prtCtx w \<noteq> None"
  shows "resolveRulePackage env rpk mg w = Return ms mg1 w1 \<Longrightarrow>
         tryBlock env sa rpk enc opts mg w = Return ms mg1 w1"
    and "resolveRulePackage env rpk mg w = Throw e mg1 w1 \<Longrightarrow>
         tryBlock env sa rpk enc opts mg w = Throw e mg1 w1"
  using assms by (auto simp: tryBlock_def prepare_def checkPRT_def)

text \<open>
  C4 (as amended): on a valid instance, with enough attribute dictionaries and PRT
  initialized, a call with a non-empty rule-package path whose resolution fails returns
  the empty sequence, logs an error and makes no call of \<open>prt::generate\<close>. When
  \<open>prt::createResolveMap\<close> threw, the orchestrator is exactly as before, its resolve
  map included. When it returned a null map or a status other than OK, the resolve map
  of the orchestrator is what it returned, and nothing else has changed.
\<close>

theorem resolve_failure:
  assumes "mValid mg"
    and "length sa = 1 \<or> length (mInitialShapesBuilders mg) \<le> length sa"
    and "isPRTInitialized w"
    and "rpk \<noteq> []"
  shows "(createResolveMap env (toFileURI env rpk) = Inl e \<longrightarrow>
            (\<exists>w'. generateModel env sa rpk enc opts mg w = Returns [] mg w'
                   \<and> generateCalls w' = generateCalls w \<and> fst (last (logged w')) = LOG_ERR))
         \<and> (createResolveMap env (toFileURI env rpk) = Inr (rm, status)
              \<and> (rm = None \<or> status \<noteq> STATUS_OK) \<longrightarrow>
            (\<exists>w'. generateModel env sa rpk enc opts mg w = Returns [] (mg\<lparr>mResolveMap := rm\<rparr>) w'
                   \<and> generateCalls w' = generateCalls w \<and> fst (last (logged w')) = LOG_ERR))"
proof -
  let ?w0 = "warnTooMany sa mg w"
  let ?w1 = "LOG LOG_INF (''using rule package '' @ rpk) ?w0"
  have p: "prtCtx ?w0 \<noteq> None" using assms(3) by (simp add: isPRTInitialized_def)
  have g: "generateModel env sa rpk enc opts mg w = catchAll (tryBlock env sa rpk enc opts mg ?w0)"
    using assms(1,2) by (rule generateModel_passes)
  have a: "\<exists>w'. generateModel env sa rpk enc opts mg w = Returns [] mg w'
                 \<and> generateCalls w' = generateCalls w \<and> fst (last (logged w')) = LOG_ERR"
    if "createResolveMap env (toFileURI env rpk) = Inl e"
  proof (cases e)
    case (StdException what)
    with that assms(4) have "tryBlock env sa rpk enc opts mg ?w0
        = Return [] mg (LOG LOG_ERR (''getting resolve map from '' @ rpk @ '' failed, aborting.'')
                          (py_print (''CAUGHT EXCEPTION: '' @ what) ?w1))"
      by (intro tryBlock_resolve_stops(1) [OF p]) (simp add: resolveRulePackage_def checkResolveMap_fails)
    then show ?thesis by (simp add: g)
  next
    case UnknownException
    with that assms(4) have "tryBlock env sa rpk enc opts mg ?w0 = Throw UnknownException mg ?w1"
      by (intro tryBlock_resolve_stops(2) [OF p]) (simp add: resolveRulePackage_def)
    then show ?thesis by (simp add: g)
  qed
  have b: "\<exists>w'. generateModel env sa rpk enc opts mg w = Returns [] (mg\<lparr>mResolveMap := rm\<rparr>) w'
                   \<and> generateCalls w' = generateCalls w \<and> fst (last (logged w')) = LOG_ERR"
    if "createResolveMap env (toFileURI env rpk) = Inr (rm, status)" "rm = None \<or> status \<noteq> STATUS_OK"
  proof -
    from that assms(4) have "tryBlock env sa rpk enc opts mg ?w0
        = Return [] (mg\<lparr>mResolveMap := rm\<rparr>)
            (LOG LOG_ERR (''getting resolve map from '' @ rpk @ '' failed, aborting.'') ?w1)"
      by (intro tryBlock_resolve_stops(1) [OF p]) (simp add: resolveRulePackage_def checkResolveMap_fails)
    then show ?thesis by (simp add: g)
  qed
  from a b show ?thesis by blast
qed

theorem resolve_failure_witness:
  "map_option objectToXML (mResolveMap readmeGenerator) = Some ''file:/rules.rpk''
   \<and> (case generateModel throwingEngine [readmeAttributes] ''missing.rpk'' ENCODER_ID_PYTHON
             readmeOptions readmeGenerator readmeWorld of
         Returns ms mg' w' \<Rightarrow> ms = [] \<and> mg' = readmeGenerator
                               \<and> generateCalls w' = generateCalls readmeWorld
       | UndefinedBehaviour \<Rightarrow> False)
   \<and> (case generateModel sampleEngine [readmeAttributes] ''missing.rpk'' ENCODER_ID_PYTHON
             readmeOptions readmeGenerator readmeWorld of
         Returns ms mg' w' \<Rightarrow> ms = [] \<and> mg' = readmeGenerator\<lparr>mResolveMap := None\<rparr>
                               \<and> generateCalls w' = generateCalls readmeWorld
       | UndefinedBehaviour \<Rightarrow> False)"
proof -
  have h: "mValid readmeGenerator"
    "length [readmeAttributes] = 1 \<or> length (mInitialShapesBuilders readmeGenerator) \<le> length [readmeAttributes]"
    "isPRTInitialized readmeWorld" "''missing.rpk'' \<noteq> []"
    by (simp_all add: readmeGenerator_def readmeWorld_def isPRTInitialized_def)
  have t: "createResolveMap throwingEngine (toFileURI throwingEngine ''missing.rpk'')
           = Inl (StdException ''bad URI'')"
    by simp
  have s: "createResolveMap sampleEngine (toFileURI sampleEngine ''missing.rpk'')
           = Inr (None, STATUS_ERROR 3) \<and> (None = None \<or> STATUS_ERROR 3 \<noteq> STATUS_OK)"
    by simp
  from resolve_failure [OF h, of throwingEngine "StdException ''bad URI''" ENCODER_ID_PYTHON
      readmeOptions] t
  obtain w1 where 1: "generateModel throwingEngine [readmeAttributes] ''missing.rpk'' ENCODER_ID_PYTHON
             readmeOptions readmeGenerator readmeWorld = Returns [] readmeGenerator w1"
      "generateCalls w1 = generateCalls readmeWorld"
    by blast
  from resolve_failure [OF h, of sampleEngine _ ENCODER_ID_PYTHON readmeOptions None "STATUS_ERROR 3"] s
  obtain w2 where 2: "generateModel sampleEngine [readmeAttributes] ''missing.rpk'' ENCODER_ID_PYTHON
             readmeOptions readmeGenerator readmeWorld
           = Returns [] (readmeGenerator\<lparr>mResolveMap := None\<rparr>) w2"
      "generateCalls w2 = generateCalls readmeWorld"
    by blast
  show ?thesis
    using 1 2 by (simp add: readmeGenerator_def)
qed

text \<open>
  C4 as stated fails: after the README's call resolved \<open>rules.rpk\<close>, a call naming a
  package the Engine cannot resolve returns the empty sequence and leaves the
  orchestrator without a resolve map, so that \<open>generateAnotherModel\<close> is refused next.
\<close>

theorem resolve_failure_counterexample:
  "mResolveMap readmeGenerator = Some (ResolveMap ''file:/rules.rpk'')
   \<and> generateModel sampleEngine [readmeAttributes] ''missing.rpk'' ENCODER_ID_PYTHON readmeOptions
        readmeGenerator readmeWorld
     = Returns [] (readmeGenerator\<lparr>mResolveMap := None\<rparr>)
         (LOG LOG_ERR ''getting resolve map from missing.rpk failed, aborting.''
            (LOG LOG_INF ''using rule package missing.rpk'' readmeWorld))
   \<and> mResolveMap (readmeGenerator\<lparr>mResolveMap := None\<rparr>) \<noteq> mResolveMap readmeGenerator
   \<and> generateAnotherModel sampleEngine [readmeAttributes] (readmeGenerator\<lparr>mResolveMap := None\<rparr>)
        readmeWorld
     = Returns [] (readmeGenerator\<lparr>mResolveMap := None\<rparr>)
         (LOG LOG_ERR ''generate model with all required parameters'' readmeWorld)"
  by (simp add: generateModel_eval generateAnotherModel_def readmeGenerator_def readmeWorld_def)

text \<open>
  C6, the failing call: a first call with an empty encoder name on a new orchestrator
  reads \<open>mEncodersNames[0]\<close> of an empty vector in \<open>getRawEncoderDataPointers\<close>. No
  error is logged and nothing is returned: the behaviour is undefined.
\<close>

theorem empty_encoder_name_first_call:
  "mEncodersNames squareGenerator = []
   \<and> generateModel sampleEngine [readmeAttributes] ''rules.rpk'' [] [] squareGenerator runningWorld
     = UndefinedBehaviour"
  by (simp add: generateModel_eval squareGenerator_eq runningWorld_eq newModelGenerator_def
        readmeAttributes_def)

section \<open>The loop of setAndCreateInitialShape\<close>

lemma loop_done:
  "\<not> ind < length (mInitialShapesBuilders mg) \<Longrightarrow>
   setAndCreateInitialShape env sa ind shapes mg w = Next shapes mg w"
  by (subst setAndCreateInitialShape.simps) simp

lemma loop_no_dictionary:
  "ind < length (mInitialShapesBuilders mg) \<Longrightarrow> selectShapeAttr sa ind = None \<Longrightarrow>
   setAndCreateInitialShape env sa ind shapes mg w = Undefined"
  by (subst setAndCreateInitialShape.simps) simp

lemma loop_throws:
  "ind < length (mInitialShapesBuilders mg) \<Longrightarrow> selectShapeAttr sa ind = Some d \<Longrightarrow>
   extractMainShapeAttributes env d (mRuleFile mg) (mStartRule mg) (mSeed mg) (mShapeName mg) = Inl e \<Longrightarrow>
   setAndCreateInitialShape env sa ind shapes mg w = Throw e mg w"
  by (subst setAndCreateInitialShape.simps) simp

lemma loop_no_builder:
  "ind < length (mInitialShapesBuilders mg) \<Longrightarrow> selectShapeAttr sa ind = Some d \<Longrightarrow>
   extractMainShapeAttributes env d (mRuleFile mg) (mStartRule mg) (mSeed mg) (mShapeName mg)
   = Inr (ruleF, startR, randomS, shapeN, conv) \<Longrightarrow>
   mInitialShapesBuilders mg ! ind = None \<Longrightarrow>
   setAndCreateInitialShape env sa ind shapes mg w = Undefined"
  by (subst setAndCreateInitialShape.simps) simp

lemma loop_round:
  "ind < length (mInitialShapesBuilders mg) \<Longrightarrow> selectShapeAttr sa ind = Some d \<Longrightarrow>
   extractMainShapeAttributes env d (mRuleFile mg) (mStartRule mg) (mSeed mg) (mShapeName mg)
   = Inr (ruleF, startR, randomS, shapeN, conv) \<Longrightarrow>
   mInitialShapesBuilders mg ! ind = Some isb \<Longrightarrow>
   setAndCreateInitialShape env sa ind shapes mg w
   = setAndCreateInitialShape env sa (Suc ind)
       (shapes[ind := Some (createInitialShape
                              (setAttributes ruleF startR randomS shapeN conv (mResolveMap mg) isb))])
       (mg\<lparr>mInitialShapesBuilders := (mInitialShapesBuilders mg)
             [ind := Some (setAttributes ruleF startR randomS shapeN conv (mResolveMap mg) isb)]\<rparr>)
       w"
  by (subst setAndCreateInitialShape.simps) simp

lemma loop_cases:
  fixes mg :: ModelGenerator and sa :: "pydict list" and env :: Engine
  obtains (finished) "\<not> ind < length (mInitialShapesBuilders mg)"
  | (no_dictionary) "ind < length (mInitialShapesBuilders mg)" "selectShapeAttr sa ind = None"
  | (throws) d e where "ind < length (mInitialShapesBuilders mg)" "selectShapeAttr sa ind = Some d"
      "extractMainShapeAttributes env d (mRuleFile mg) (mStartRule mg) (mSeed mg) (mShapeName mg) = Inl e"
  | (no_builder) d ruleF startR randomS shapeN conv where
      "ind < length (mInitialShapesBuilders mg)" "selectShapeAttr sa ind = Some d"
      "extractMainShapeAttributes env d (mRuleFile mg) (mStartRule mg) (mSeed mg) (mShapeName mg)
       = Inr (ruleF, startR, randomS, shapeN, conv)"
      "mInitialShapesBuilders mg ! ind = None"
  | (iteration) d ruleF startR randomS shapeN conv isb where
      "ind < length (mInitialShapesBuilders mg)" "selectShapeAttr sa ind = Some d"
      "extractMainShapeAttributes env d (mRuleFile mg) (mStartRule mg) (mSeed mg) (mShapeName mg)
       = Inr (ruleF, startR, randomS, shapeN, conv)"
      "mInitialShapesBuilders mg ! ind = Some isb"
proof (cases "ind < length (mInitialShapesBuilders mg)")
  case False
  then show ?thesis by (rule finished)
next
  case True
  show ?thesis
  proof (cases "selectShapeAttr sa ind")
    case None
    with True show ?thesis by (rule no_dictionary)
  next
    case (Some d)
    show ?thesis
    proof (cases "extractMainShapeAttributes env d (mRuleFile mg) (mStartRule mg) (mSeed mg) (mShapeName mg)")
      case (Inl e)
      with True Some show ?thesis by (rule throws)
    next
      case (Inr t)
      obtain ruleF startR randomS shapeN conv where "t = (ruleF, startR, randomS, shapeN, conv)"
        by (cases t) auto
      with Inr have x: "extractMainShapeAttributes env d (mRuleFile mg) (mStartRule mg) (mSeed mg)
                          (mShapeName mg) = Inr (ruleF, startR, randomS, shapeN, conv)"
        by simp
      show ?thesis
      proof (cases "mInitialShapesBuilders mg ! ind")
        case None
        with True Some x show ?thesis by (rule no_builder)
      next
        case (Some isb)
        with True \<open>selectShapeAttr sa ind = Some d\<close> x show ?thesis by (rule iteration)
      qed
    qed
  qed
qed

lemma loop_induct [consumes 0, case_names loop]:
  fixes P :: "nat \<Rightarrow> PrtInitialShape option list \<Rightarrow> ModelGenerator \<Rightarrow> bool"
  assumes "\<And>ind shapes mg.
     (\<And>d ruleF startR randomS shapeN conv isb.
        ind < length (mInitialShapesBuilders mg) \<Longrightarrow> selectShapeAttr sa ind = Some d \<Longrightarrow>
        extractMainShapeAttributes env d (mRuleFile mg) (mStartRule mg) (mSeed mg) (mShapeName mg)
        = Inr (ruleF, startR, randomS, shapeN, conv) \<Longrightarrow>
        mInitialShapesBuilders mg ! ind = Some isb \<Longrightarrow>
        P (Suc ind)
          (shapes[ind := Some (createInitialShape
                              (setAttributes ruleF startR randomS shapeN conv (mResolveMap mg) isb))])
          (mg\<lparr>mInitialShapesBuilders := (mInitialShapesBuilders mg)
             [ind := Some (setAttributes ruleF startR randomS shapeN conv (mResolveMap mg) isb)]\<rparr>))
     \<Longrightarrow> P ind shapes mg"
  shows "P ind shapes mg"
proof -
  have "env' = env \<longrightarrow> sa' = sa \<longrightarrow> P ind shapes mg" for env' sa' and w :: World
  proof (induction env' sa' ind shapes mg w rule: setAndCreateInitialShape.induct)
    case (1 env' sa' ind shapes mg w)
    show ?case
    proof (intro impI)
      assume e: "env' = env" "sa' = sa"
      show "P ind shapes mg"
      proof (rule assms)
        fix d ruleF startR randomS shapeN conv isb
        assume a: "ind < length (mInitialShapesBuilders mg)" "selectShapeAttr sa ind = Some d"
          "extractMainShapeAttributes env d (mRuleFile mg) (mStartRule mg) (mSeed mg) (mShapeName mg)
           = Inr (ruleF, startR, randomS, shapeN, conv)"
          "mInitialShapesBuilders mg ! ind = Some isb"
        show "P (Suc ind)
              (shapes[ind := Some (createInitialShape
                                  (setAttributes ruleF startR randomS shapeN conv (mResolveMap mg) isb))])
              (mg\<lparr>mInitialShapesBuilders := (mInitialShapesBuilders mg)
                 [ind := Some (setAttributes ruleF startR randomS shapeN conv (mResolveMap mg) isb)]\<rparr>)"
          using "1.IH" [of d "(ruleF, startR, randomS, shapeN, conv)" ruleF
                           "(startR, randomS, shapeN, conv)" startR "(randomS, shapeN, conv)"
                           randomS "(shapeN, conv)" shapeN conv isb] a e
          by simp
      qed
    qed
  qed
  then show ?thesis by blast
qed


lemma allBuilders_update:
  "allBuilders mg \<Longrightarrow>
   allBuilders (mg\<lparr>mInitialShapesBuilders := (mInitialShapesBuilders mg)[ind := Some isb]\<rparr>)"
  by (auto simp: allBuilders_def list_all_iff dest: set_update_subset_insert [THEN subsetD])

text \<open>
  The loop only assigns builder slots. With a builder in every slot and a dictionary to
  select, no round is undefined.
\<close>

lemma loop_frame:
  "stepHolds (\<lambda>mg' w'. w' = w \<and> mg'\<lparr>mInitialShapesBuilders := mInitialShapesBuilders mg\<rparr> = mg
                         \<and> length (mInitialShapesBuilders mg') = length (mInitialShapesBuilders mg)
                         \<and> (allBuilders mg \<longrightarrow> allBuilders mg'))
     (setAndCreateInitialShape env sa ind shapes mg w)"
proof (induction ind shapes mg rule: loop_induct [where sa = sa and env = env])
  case (loop ind shapes mg)
  show ?case
  proof (cases rule: loop_cases [where mg = mg and sa = sa and env = env and ind = ind])
    case finished
    then show ?thesis by (simp add: loop_done)
  next
    case no_dictionary
    then show ?thesis by (simp add: loop_no_dictionary)
  next
    case (throws d e)
    then show ?thesis by (simp add: loop_throws)
  next
    case (no_builder d ruleF startR randomS shapeN conv)
    then show ?thesis by (simp add: loop_no_builder)
  next
    case (iteration d ruleF startR randomS shapeN conv isb)
    let ?isb = "setAttributes ruleF startR randomS shapeN conv (mResolveMap mg) isb"
    let ?mg1 = "mg\<lparr>mInitialShapesBuilders := (mInitialShapesBuilders mg)[ind := Some ?isb]\<rparr>"
    let ?r = "setAndCreateInitialShape env sa (Suc ind) (shapes[ind := Some (createInitialShape ?isb)]) ?mg1 w"
    have e: "setAndCreateInitialShape env sa ind shapes mg w = ?r"
      by (rule loop_round [OF iteration])
    have a: "allBuilders mg \<Longrightarrow> allBuilders ?mg1" by (rule allBuilders_update)
    have u: "mg'\<lparr>mInitialShapesBuilders := mInitialShapesBuilders mg\<rparr> = mg"
      if "mg'\<lparr>mInitialShapesBuilders := mInitialShapesBuilders ?mg1\<rparr> = ?mg1" for mg'
    proof -
      from that have "(mg'\<lparr>mInitialShapesBuilders := mInitialShapesBuilders ?mg1\<rparr>)
                        \<lparr>mInitialShapesBuilders := mInitialShapesBuilders mg\<rparr>
                      = ?mg1\<lparr>mInitialShapesBuilders := mInitialShapesBuilders mg\<rparr>"
        by simp
      then show ?thesis by simp
    qed
    from loop [OF iteration] show ?thesis
      unfolding e using a u by (cases ?r) auto
  qed
qed

lemma loop_defined:
  assumes "allBuilders mg" and "sa \<noteq> []"
  shows "setAndCreateInitialShape env sa ind shapes mg w \<noteq> Undefined"
proof -
  have "allBuilders mg \<longrightarrow> setAndCreateInitialShape env sa ind shapes mg w \<noteq> Undefined"
  proof (induction ind shapes mg rule: loop_induct [where sa = sa and env = env])
    case (loop ind shapes mg)
    show ?case
    proof (intro impI)
      assume ab: "allBuilders mg"
      show "setAndCreateInitialShape env sa ind shapes mg w \<noteq> Undefined"
      proof (cases rule: loop_cases [where mg = mg and sa = sa and env = env and ind = ind])
        case finished
        then show ?thesis by (simp add: loop_done)
      next
        case no_dictionary
        with assms(2) show ?thesis by (simp add: selectShapeAttr_def split: list.splits)
      next
        case (throws d e)
        then show ?thesis by (simp add: loop_throws)
      next
        case (no_builder d ruleF startR randomS shapeN conv)
        with ab show ?thesis by (auto simp: allBuilders_def list_all_length)
      next
        case (iteration d ruleF startR randomS shapeN conv isb)
        from loop [OF iteration] allBuilders_update [OF ab] show ?thesis
          by (simp add: loop_round [OF iteration])
      qed
    qed
  qed
  with assms(1) show ?thesis by simp
qed

text \<open>
  When the loop runs to its end, every slot from \<open>ind\<close> on holds the builder with the
  attributes of its round, the initial shape created from it is at the same index, and
  the slots before \<open>ind\<close> are as they were.
\<close>

lemma loop_result:
  assumes "setAndCreateInitialShape env sa ind shapes mg w = Next shapes' mg' w'"
    and "length shapes = length (mInitialShapesBuilders mg)"
    and "k < length (mInitialShapesBuilders mg)"
  shows "(k < ind \<longrightarrow> mInitialShapesBuilders mg' ! k = mInitialShapesBuilders mg ! k
                       \<and> shapes' ! k = shapes ! k)
         \<and> (ind \<le> k \<longrightarrow> attributed env sa mg k \<noteq> None
                           \<and> mInitialShapesBuilders mg' ! k = attributed env sa mg k
                           \<and> shapes' ! k = map_option createInitialShape (attributed env sa mg k))"
proof -
  have "setAndCreateInitialShape env sa ind shapes mg w = Next shapes' mg' w' \<longrightarrow>
        length shapes = length (mInitialShapesBuilders mg) \<longrightarrow>
        k < length (mInitialShapesBuilders mg) \<longrightarrow>
        (k < ind \<longrightarrow> mInitialShapesBuilders mg' ! k = mInitialShapesBuilders mg ! k
                       \<and> shapes' ! k = shapes ! k)
         \<and> (ind \<le> k \<longrightarrow> attributed env sa mg k \<noteq> None
                           \<and> mInitialShapesBuilders mg' ! k = attributed env sa mg k
                           \<and> shapes' ! k = map_option createInitialShape (attributed env sa mg k))"
  proof (induction ind shapes mg rule: loop_induct [where sa = sa and env = env])
    case (loop ind shapes mg)
    show ?case
    proof (cases rule: loop_cases [where mg = mg and sa = sa and env = env and ind = ind])
      case finished
      then show ?thesis by (auto simp: loop_done)
    next
      case no_dictionary
      then show ?thesis by (simp add: loop_no_dictionary)
    next
      case (throws d e)
      then show ?thesis by (simp add: loop_throws)
    next
      case (no_builder d ruleF startR randomS shapeN conv)
      then show ?thesis by (simp add: loop_no_builder)
    next
      case (iteration d ruleF startR randomS shapeN conv isb)
      let ?isb = "setAttributes ruleF startR randomS shapeN conv (mResolveMap mg) isb"
      let ?mg1 = "mg\<lparr>mInitialShapesBuilders := (mInitialShapesBuilders mg)[ind := Some ?isb]\<rparr>"
      let ?shapes1 = "shapes[ind := Some (createInitialShape ?isb)]"
      have e: "setAndCreateInitialShape env sa ind shapes mg w
               = setAndCreateInitialShape env sa (Suc ind) ?shapes1 ?mg1 w"
        by (rule loop_round [OF iteration])
      have here: "attributed env sa mg ind = Some ?isb"
        using iteration by (simp add: attributed_def)
      have other: "attributed env sa ?mg1 j = attributed env sa mg j" if "j \<noteq> ind" for j
        using that by (simp add: attributed_def cong: option.case_cong sum.case_cong prod.case_cong)
      show ?thesis
      proof (intro impI)
        assume r: "setAndCreateInitialShape env sa ind shapes mg w = Next shapes' mg' w'"
          and l: "length shapes = length (mInitialShapesBuilders mg)"
          and k: "k < length (mInitialShapesBuilders mg)"
        from loop [OF iteration] r l k
        have ih: "(k < Suc ind \<longrightarrow> mInitialShapesBuilders mg' ! k = mInitialShapesBuilders ?mg1 ! k
                                   \<and> shapes' ! k = ?shapes1 ! k)
                  \<and> (Suc ind \<le> k \<longrightarrow> attributed env sa ?mg1 k \<noteq> None
                           \<and> mInitialShapesBuilders mg' ! k = attributed env sa ?mg1 k
                           \<and> shapes' ! k = map_option createInitialShape (attributed env sa ?mg1 k))"
          by (simp add: e)
        show "(k < ind \<longrightarrow> mInitialShapesBuilders mg' ! k = mInitialShapesBuilders mg ! k
                       \<and> shapes' ! k = shapes ! k)
         \<and> (ind \<le> k \<longrightarrow> attributed env sa mg k \<noteq> None
                           \<and> mInitialShapesBuilders mg' ! k = attributed env sa mg k
                           \<and> shapes' ! k = map_option createInitialShape (attributed env sa mg k))"
        proof (cases "k = ind")
          case True
          with ih l iteration(1) here show ?thesis by simp
        next
          case False
          with ih other [OF False] show ?thesis by (cases "k < ind") auto
        qed
      qed
    qed
  qed
  with assms show ?thesis by blast
qed

lemma loop_result_length:
  "setAndCreateInitialShape env sa ind shapes mg w = Next shapes' mg' w' \<Longrightarrow>
   length shapes' = length shapes"
proof -
  have "\<forall>shapes'. setAndCreateInitialShape env sa ind shapes mg w = Next shapes' mg' w' \<longrightarrow>
        length shapes' = length shapes"
  proof (induction ind shapes mg rule: loop_induct [where sa = sa and env = env])
    case (loop ind shapes mg)
    show ?case
    proof (cases rule: loop_cases [where mg = mg and sa = sa and env = env and ind = ind])
      case finished
      then show ?thesis by (auto simp: loop_done)
    next
      case no_dictionary
      then show ?thesis by (simp add: loop_no_dictionary)
    next
      case (throws d e)
      then show ?thesis by (simp add: loop_throws)
    next
      case (no_builder d ruleF startR randomS shapeN conv)
      then show ?thesis by (simp add: loop_no_builder)
    next
      case (iteration d ruleF startR randomS shapeN conv isb)
      from loop [OF iteration] show ?thesis
        by (simp add: loop_round [OF iteration])
    qed
  qed
  then show "setAndCreateInitialShape env sa ind shapes mg w = Next shapes' mg' w' \<Longrightarrow>
             length shapes' = length shapes"
    by blast
qed

section \<open>The try block, stretch by stretch\<close>

lemma andThen_Next:
  assumes "andThen s f = Next y mg' w'"
  obtains x mg1 w1 where "s = Next x mg1 w1" "f x mg1 w1 = Next y mg' w'"
  using assms by (cases s) auto


lemma andThen_defined:
  "s \<noteq> Undefined \<Longrightarrow> (\<And>x mg1 w1. s = Next x mg1 w1 \<Longrightarrow> f x mg1 w1 \<noteq> Undefined) \<Longrightarrow>
   andThen s f \<noteq> Undefined"
  by (cases s) auto

lemma resolveRulePackage_only_map:
  "stepHolds (\<lambda>mg' w'. mg'\<lparr>mResolveMap := mResolveMap mg\<rparr> = mg)
     (resolveRulePackage env rpk mg w)"
  by (auto simp: resolveRulePackage_def checkResolveMap_def Let_def
        split: sum.split exn.split option.split)

lemma resolveRulePackage_defined: "resolveRulePackage env rpk mg w \<noteq> Undefined"
  by (auto simp: resolveRulePackage_def checkResolveMap_def Let_def
        split: sum.split exn.split option.split)

lemma initializeEncoderData_result:
  "stepHolds (\<lambda>mg' w'. w' = w \<and> mResolveMap mg' = mResolveMap mg
                         \<and> mInitialShapesBuilders mg' = mInitialShapesBuilders mg \<and> keeps mg mg')
     (initializeEncoderData env enc opts mg w)"
  by (auto simp: initializeEncoderData_def Let_def keeps_def split: sum.split)

lemma initializeEncoderData_Next:
  "initializeEncoderData env enc opts mg w = Next x mg' w' \<Longrightarrow>
   mEncodersNames mg' = (if enc \<noteq> ENCODER_ID_PYTHON
                         then [enc, ENCODER_ID_CGA_REPORT, ENCODER_ID_CGA_PRINT] else [enc])
   \<and> length (mEncodersOptionsPtr mg') = length (mEncodersNames mg')"
  by (auto simp: initializeEncoderData_def Let_def split: sum.splits if_splits)

lemma initializeEncoderData_defined: "initializeEncoderData env enc opts mg w \<noteq> Undefined"
  by (auto simp: initializeEncoderData_def Let_def split: sum.split)

lemma setupEncoders_defined: "setupEncoders env enc opts mg w \<noteq> Undefined"
  by (simp add: setupEncoders_def Let_def initializeEncoderData_defined)

lemma setupEncoders_result:
  "stepHolds (\<lambda>mg' w'. w' = w \<and> mResolveMap mg' = mResolveMap mg
                         \<and> mInitialShapesBuilders mg' = mInitialShapesBuilders mg \<and> keeps mg mg')
     (setupEncoders env enc opts mg w)"
proof -
  have "stepHolds (\<lambda>mg' w'. w' = w \<and> mResolveMap mg' = mResolveMap mg
                         \<and> mInitialShapesBuilders mg' = mInitialShapesBuilders mg \<and> keeps mg mg')
          (initializeEncoderData env enc opts (mg\<lparr>mEncoderBuilder := b\<rparr>) w)" for b
    using initializeEncoderData_result [of w "mg\<lparr>mEncoderBuilder := b\<rparr>" env enc opts]
    by (cases "initializeEncoderData env enc opts (mg\<lparr>mEncoderBuilder := b\<rparr>) w")
       (auto simp: keeps_def)
  from this [of "Some AttributeMapBuilder"] initializeEncoderData_result [of w mg env enc opts]
  show ?thesis
    by (simp add: setupEncoders_def Let_def keeps_def)
qed

lemma setupEncoders_Next:
  assumes "setupEncoders env enc opts mg w = Next x mg' w'"
  shows "(enc = [] \<longrightarrow> mEncodersNames mg' = mEncodersNames mg
                        \<and> mEncodersOptionsPtr mg' = mEncodersOptionsPtr mg)
         \<and> (enc \<noteq> [] \<longrightarrow> mEncodersNames mg' = (if enc \<noteq> ENCODER_ID_PYTHON
                                 then [enc, ENCODER_ID_CGA_REPORT, ENCODER_ID_CGA_PRINT] else [enc])
                               \<and> length (mEncodersOptionsPtr mg') = length (mEncodersNames mg'))"
  using assms
  by (auto simp: setupEncoders_def Let_def split: if_splits dest!: initializeEncoderData_Next)

text \<open>A call that gets to line 305 has been through each stretch before it.\<close>

lemma prepare_Next:
  assumes "prepare env sa rpk enc opts mg w = Next (shapes, encs, eopts) mg3 w3"
  obtains mg1 w1 mg2 where
    "prtCtx w \<noteq> None"
    "resolveRulePackage env rpk mg w = Next () mg1 w1"
    "setAndCreateInitialShape env sa 0 (replicate (length (mInitialShapesBuilders mg1)) None) mg1 w1
     = Next shapes mg2 w1"
    "setupEncoders env enc opts mg2 w1 = Next () mg3 w3"
    "w3 = w1"
    "getRawEncoderDataPointers mg3 = Some (encs, eopts)"
proof -
  from assms [unfolded prepare_def]
  obtain u0 mg0 w0 where c: "checkPRT mg w = Next u0 mg0 w0"
    and r0: "andThen (resolveRulePackage env rpk mg0 w0) (\<lambda>_ mg w.
     andThen (setAndCreateInitialShape env sa 0
                (replicate (length (mInitialShapesBuilders mg)) None) mg w) (\<lambda>initialShapes mg w.
     andThen (setupEncoders env enc opts mg w) (\<lambda>_ mg w.
       (case getRawEncoderDataPointers mg of
          None \<Rightarrow> Undefined
        | Some (encoders, encodersOptions) \<Rightarrow>
            Next (initialShapes, encoders, encodersOptions) mg w)))) = Next (shapes, encs, eopts) mg3 w3"
    by (rule andThen_Next)
  from c have p: "prtCtx w \<noteq> None" and m0: "mg0 = mg" "w0 = w"
    by (auto simp: checkPRT_def split: if_splits)
  from r0 obtain u1 mg1 w1 where r: "resolveRulePackage env rpk mg0 w0 = Next u1 mg1 w1"
    and l0: "andThen (setAndCreateInitialShape env sa 0
                (replicate (length (mInitialShapesBuilders mg1)) None) mg1 w1) (\<lambda>initialShapes mg w.
     andThen (setupEncoders env enc opts mg w) (\<lambda>_ mg w.
       (case getRawEncoderDataPointers mg of
          None \<Rightarrow> Undefined
        | Some (encoders, encodersOptions) \<Rightarrow>
            Next (initialShapes, encoders, encodersOptions) mg w))) = Next (shapes, encs, eopts) mg3 w3"
    by (rule andThen_Next)
  from l0 obtain shapes2 mg2 w2 where l: "setAndCreateInitialShape env sa 0
                (replicate (length (mInitialShapesBuilders mg1)) None) mg1 w1 = Next shapes2 mg2 w2"
    and s0: "andThen (setupEncoders env enc opts mg2 w2) (\<lambda>_ mg w.
       (case getRawEncoderDataPointers mg of
          None \<Rightarrow> Undefined
        | Some (encoders, encodersOptions) \<Rightarrow>
            Next (shapes2, encoders, encodersOptions) mg w)) = Next (shapes, encs, eopts) mg3 w3"
    by (rule andThen_Next)
  from loop_frame [of w1 mg1 env sa 0 "replicate (length (mInitialShapesBuilders mg1)) None"] l
  have w2: "w2 = w1" by simp
  from s0 obtain u3 mg3' w3' where s: "setupEncoders env enc opts mg2 w2 = Next u3 mg3' w3'"
    and g0: "(case getRawEncoderDataPointers mg3' of
          None \<Rightarrow> Undefined
        | Some (encoders, encodersOptions) \<Rightarrow>
            Next (shapes2, encoders, encodersOptions) mg3' w3') = Next (shapes, encs, eopts) mg3 w3"
    by (rule andThen_Next)
  from g0 have g: "getRawEncoderDataPointers mg3 = Some (encs, eopts)" "shapes2 = shapes"
    "mg3' = mg3" "w3' = w3"
    by (auto split: option.splits)
  from setupEncoders_result [of w2 mg2 env enc opts] s have w3: "w3' = w2" by simp
  show ?thesis
    using p r l s g w2 w3 m0 by (intro that) simp_all
qed

section \<open>Which dictionary a shape gets\<close>







section \<open>What the call hands to the Engine\<close>

lemma same_except_resolveMap:
  "mg1\<lparr>mResolveMap := mResolveMap mg\<rparr> = mg \<Longrightarrow> mg1 = mg\<lparr>mResolveMap := mResolveMap mg1\<rparr>"
  by (cases mg, cases mg1) simp

lemma same_except_builders:
  "mg2\<lparr>mInitialShapesBuilders := mInitialShapesBuilders mg1\<rparr> = mg1 \<Longrightarrow>
   mg2 = mg1\<lparr>mInitialShapesBuilders := mInitialShapesBuilders mg2\<rparr>"
  by (cases mg1, cases mg2) simp

lemma attributed_resolveMap:
  "attributed env sa (mg\<lparr>mInitialShapesBuilders := bs\<rparr>) k
   = attributed env sa mg k" if "bs ! k = mInitialShapesBuilders mg ! k"
  using that by (simp add: attributed_def cong: option.case_cong sum.case_cong prod.case_cong)

lemma prepare_Next_facts:
  assumes "prepare env sa rpk enc opts mg w = Next (shapes, encs, eopts) mg3 w3"
  shows "keeps mg mg3" and "quiet w w3" and "prtCtx w \<noteq> None"
    and "getRawEncoderDataPointers mg3 = Some (encs, eopts)"
    and "enc = [] \<Longrightarrow> mEncodersNames mg3 = mEncodersNames mg
                          \<and> mEncodersOptionsPtr mg3 = mEncodersOptionsPtr mg"
    and "enc \<noteq> [] \<Longrightarrow> mEncodersNames mg3 = (if enc \<noteq> ENCODER_ID_PYTHON
                                 then [enc, ENCODER_ID_CGA_REPORT, ENCODER_ID_CGA_PRINT] else [enc])
                               \<and> length (mEncodersOptionsPtr mg3) = length (mEncodersNames mg3)"
    and "length shapes = length (mInitialShapesBuilders mg)"
    and "k < length (mInitialShapesBuilders mg) \<Longrightarrow>
         attributed env sa (mg\<lparr>mResolveMap := mResolveMap mg3\<rparr>) k \<noteq> None
         \<and> shapes ! k = map_option createInitialShape
                           (attributed env sa (mg\<lparr>mResolveMap := mResolveMap mg3\<rparr>) k)
         \<and> mInitialShapesBuilders mg3 ! k = attributed env sa (mg\<lparr>mResolveMap := mResolveMap mg3\<rparr>) k"
proof -
  from prepare_frame [of mg w env sa rpk enc opts] assms
  show "keeps mg mg3" and "quiet w w3" by simp_all
  from assms obtain mg1 w1 mg2 where p: "prtCtx w \<noteq> None"
    and r: "resolveRulePackage env rpk mg w = Next () mg1 w1"
    and l: "setAndCreateInitialShape env sa 0 (replicate (length (mInitialShapesBuilders mg1)) None) mg1 w1
            = Next shapes mg2 w1"
    and s: "setupEncoders env enc opts mg2 w1 = Next () mg3 w3"
    and g: "getRawEncoderDataPointers mg3 = Some (encs, eopts)"
    by (rule prepare_Next)
  show "prtCtx w \<noteq> None" by (rule p)
  show "getRawEncoderDataPointers mg3 = Some (encs, eopts)" by (rule g)
  from resolveRulePackage_only_map [of mg env rpk w] r
  have m1: "mg1 = mg\<lparr>mResolveMap := mResolveMap mg1\<rparr>"
    by (simp add: same_except_resolveMap)
  from loop_frame [of w1 mg1 env sa 0 "replicate (length (mInitialShapesBuilders mg1)) None"] l
  have m2: "mg2 = mg1\<lparr>mInitialShapesBuilders := mInitialShapesBuilders mg2\<rparr>"
    and l2: "length (mInitialShapesBuilders mg2) = length (mInitialShapesBuilders mg1)"
    by (simp_all add: same_except_builders)
  from setupEncoders_result [of w1 mg2 env enc opts] s
  have m3: "mResolveMap mg3 = mResolveMap mg2" "mInitialShapesBuilders mg3 = mInitialShapesBuilders mg2"
    by simp_all
  have n1: "mEncodersNames mg1 = mEncodersNames mg" "mEncodersOptionsPtr mg1 = mEncodersOptionsPtr mg"
    "length (mInitialShapesBuilders mg1) = length (mInitialShapesBuilders mg)"
    "mInitialShapesBuilders mg1 = mInitialShapesBuilders mg"
    by (subst m1, simp)+
  have n2: "mEncodersNames mg2 = mEncodersNames mg1" "mEncodersOptionsPtr mg2 = mEncodersOptionsPtr mg1"
    "mResolveMap mg2 = mResolveMap mg1"
    by (subst m2, simp)+
  from setupEncoders_Next [OF s] n1 n2
  show "enc = [] \<Longrightarrow> mEncodersNames mg3 = mEncodersNames mg
                          \<and> mEncodersOptionsPtr mg3 = mEncodersOptionsPtr mg"
    and "enc \<noteq> [] \<Longrightarrow> mEncodersNames mg3 = (if enc \<noteq> ENCODER_ID_PYTHON
                                 then [enc, ENCODER_ID_CGA_REPORT, ENCODER_ID_CGA_PRINT] else [enc])
                               \<and> length (mEncodersOptionsPtr mg3) = length (mEncodersNames mg3)"
    by simp_all
  from loop_result_length [OF l] n1
  show "length shapes = length (mInitialShapesBuilders mg)" by simp
  have mm: "mg\<lparr>mResolveMap := mResolveMap mg3\<rparr> = mg1"
    using m1 m3 n2 by simp
  show "attributed env sa (mg\<lparr>mResolveMap := mResolveMap mg3\<rparr>) k \<noteq> None
         \<and> shapes ! k = map_option createInitialShape
                           (attributed env sa (mg\<lparr>mResolveMap := mResolveMap mg3\<rparr>) k)
         \<and> mInitialShapesBuilders mg3 ! k = attributed env sa (mg\<lparr>mResolveMap := mResolveMap mg3\<rparr>) k"
    if "k < length (mInitialShapesBuilders mg)"
    using loop_result [OF l, of k] that n1 m3 unfolding mm by simp
qed

lemma returnsEmpty_andThen:
  "returnsEmpty s \<Longrightarrow> (\<And>x mg1 w1. s = Next x mg1 w1 \<Longrightarrow> returnsEmpty (f x mg1 w1)) \<Longrightarrow>
   returnsEmpty (andThen s f)"
  by (cases s) auto

lemma loop_returnsEmpty: "returnsEmpty (setAndCreateInitialShape env sa ind shapes mg w)"
proof (induction ind shapes mg rule: loop_induct [where sa = sa and env = env])
  case (loop ind shapes mg)
  show ?case
  proof (cases rule: loop_cases [where mg = mg and sa = sa and env = env and ind = ind])
    case finished
    then show ?thesis by (simp add: loop_done)
  next
    case no_dictionary
    then show ?thesis by (simp add: loop_no_dictionary)
  next
    case (throws d e)
    then show ?thesis by (simp add: loop_throws)
  next
    case (no_builder d ruleF startR randomS shapeN conv)
    then show ?thesis by (simp add: loop_no_builder)
  next
    case (iteration d ruleF startR randomS shapeN conv isb)
    from loop [OF iteration] show ?thesis by (simp add: loop_round [OF iteration])
  qed
qed

lemma prepare_returnsEmpty: "returnsEmpty (prepare env sa rpk enc opts mg w)"
  unfolding prepare_def
proof (intro returnsEmpty_andThen)
  show "returnsEmpty (checkPRT mg w)" by (simp add: checkPRT_def)
next
  fix mg1 w1
  show "returnsEmpty (resolveRulePackage env rpk mg1 w1)"
    by (auto simp: resolveRulePackage_def checkResolveMap_def Let_def
          split: sum.split exn.split option.split)
next
  fix mg2 w2
  show "returnsEmpty (setAndCreateInitialShape env sa 0
          (replicate (length (mInitialShapesBuilders mg2)) None) mg2 w2)"
    by (rule loop_returnsEmpty)
next
  fix mg3 w3
  show "returnsEmpty (setupEncoders env enc opts mg3 w3)"
    by (auto simp: setupEncoders_def initializeEncoderData_def Let_def split: sum.split)
next
  fix x :: "PrtInitialShape option list" and mg4 w4
  show "returnsEmpty (case getRawEncoderDataPointers mg4 of None \<Rightarrow> Undefined
           | Some (encoders, encodersOptions) \<Rightarrow> Next (x, encoders, encodersOptions) mg4 w4)"
    by (simp split: option.split prod.split)
qed

text \<open>
  A call that passes the two checks of lines 238-252 either stops before line 305,
  returning the empty sequence without a call of \<open>prt::generate\<close>, or gets there.
\<close>

lemma tryBlock_outcome:
  assumes "catchAll (tryBlock env sa rpk enc opts mg w) = Returns ms mg' w'"
  obtains (stopped) "ms = []" "generateCalls w' = generateCalls w" "keeps mg mg'"
      "\<And>x mg1 w1. prepare env sa rpk enc opts mg w \<noteq> Next x mg1 w1"
  | (dispatched) shapes encs eopts mg1 w1 where
      "prepare env sa rpk enc opts mg w = Next (shapes, encs, eopts) mg1 w1"
      "catchAll (if mEncodersNames mg1 ! 0 = ENCODER_ID_PYTHON
                 then generatePython env shapes encs eopts mg1 w1
                 else generateFiles env opts shapes encs eopts mg1 w1) = Returns ms mg' w'"
proof (cases "prepare env sa rpk enc opts mg w")
  case (Next x mg1 w1)
  obtain shapes encs eopts where "x = (shapes, encs, eopts)" by (cases x) auto
  with Next assms show ?thesis
    by (intro dispatched [of shapes encs eopts mg1 w1]) (simp_all add: tryBlock_def)
next
  case (Return ms1 mg1 w1)
  with prepare_returnsEmpty [of env sa rpk enc opts mg w] have "ms1 = []" by simp
  with Return assms prepare_frame [of mg w env sa rpk enc opts] show ?thesis
    by (intro stopped) (auto simp: tryBlock_def quiet_def)
next
  case (Throw e mg1 w1)
  with assms prepare_frame [of mg w env sa rpk enc opts] show ?thesis
    by (intro stopped; cases e) (auto simp: tryBlock_def quiet_def)
next
  case Undefined
  with assms show ?thesis by (simp add: tryBlock_def)
qed

lemma catchAll_Throw:
  "catchAll (Throw e mg w)
   = Returns [] mg (LOG LOG_ERR (case e of StdException what \<Rightarrow> ''caught exception: '' @ what
                                 | UnknownException \<Rightarrow> ''caught unknown exception.'') w)"
  by (cases e) simp_all

lemma generatePython_outcome:
  assumes "catchAll (generatePython env shapes encs eopts mg1 w1) = Returns ms mg' w'"
  shows "mg' = mg1"
    and "generateCalls w' = generateCalls w1
           @ [GenerateCall shapes encs eopts (PyCallbacksSink (length (mInitialShapesBuilders mg1)))]"
    and "generate env shapes encs eopts (PyCallbacksSink (length (mInitialShapesBuilders mg1)))
         = Inr (STATUS_OK, foc) \<Longrightarrow>
         ms = drain 0 (length (mInitialShapesBuilders mg1)) foc []"
  using assms
  by (auto simp: generatePython_def Let_def catchAll_Throw split: sum.splits prod.splits if_splits)

lemma generateFiles_outcome:
  assumes "catchAll (generateFiles env opts shapes encs eopts mg1 w1) = Returns ms mg' w'"
  shows "ms = []" and "mg' = mg1"
    and "outputDirectory env opts = None \<Longrightarrow> generateCalls w' = generateCalls w1"
    and "outputDirectory env opts = Some p \<Longrightarrow>
         generateCalls w' = generateCalls w1 @ [GenerateCall shapes encs eopts (FileOutputCallbacks p)]"
  using assms
  by (auto simp: generateFiles_def outputDirectory_def Let_def catchAll_Throw
        split: sum.splits prod.splits if_splits)

lemma generateFiles_returns:
  "\<exists>mg' w'. catchAll (generateFiles env opts shapes encs eopts mg1 w1) = Returns [] mg' w'"
  by (auto simp: generateFiles_def Let_def catchAll_Throw split: sum.splits prod.splits if_splits)



section \<open>The file-based encoders\<close>

lemma getRawEncoderDataPointers_cong:
  "mEncodersNames a = mEncodersNames b \<Longrightarrow> mEncodersOptionsPtr a = mEncodersOptionsPtr b \<Longrightarrow>
   getRawEncoderDataPointers a = getRawEncoderDataPointers b"
  by (simp add: getRawEncoderDataPointers_def)

lemma getRawEncoderDataPointers_built:
  "mEncodersNames mg = (if enc \<noteq> ENCODER_ID_PYTHON
                        then [enc, ENCODER_ID_CGA_REPORT, ENCODER_ID_CGA_PRINT] else [enc]) \<Longrightarrow>
   length (mEncodersOptionsPtr mg) = length (mEncodersNames mg) \<Longrightarrow>
   getRawEncoderDataPointers mg \<noteq> None"
  by (auto simp: getRawEncoderDataPointers_def split: if_splits)

text \<open>
  With a builder in every slot, a dictionary for the loop to read and an encoder set to
  read (named by this call or kept from an earlier one), the stretch up to line 303 has
  no undefined behaviour.
\<close>

lemma prepare_defined:
  assumes "allBuilders mg"
    and "sa \<noteq> [] \<or> mInitialShapesBuilders mg = []"
    and "enc \<noteq> [] \<or> getRawEncoderDataPointers mg \<noteq> None"
  shows "prepare env sa rpk enc opts mg w \<noteq> Undefined"
proof (cases "prtCtx w = None")
  case True
  then show ?thesis by (simp add: prepare_def checkPRT_def)
next
  case False
  then have c: "checkPRT mg w = Next () mg w" by (simp add: checkPRT_def)
  show ?thesis
  proof (cases "resolveRulePackage env rpk mg w")
    case (Next u mg1 w1)
    from resolveRulePackage_only_map [of mg env rpk w] Next
    have m1: "mg1 = mg\<lparr>mResolveMap := mResolveMap mg1\<rparr>" by (simp add: same_except_resolveMap)
    have b1: "mInitialShapesBuilders mg1 = mInitialShapesBuilders mg"
      and n1: "mEncodersNames mg1 = mEncodersNames mg" "mEncodersOptionsPtr mg1 = mEncodersOptionsPtr mg"
      by (subst m1, simp)+
    from assms(1) b1 have a1: "allBuilders mg1" by (simp add: allBuilders_def)
    let ?l = "setAndCreateInitialShape env sa 0
                (replicate (length (mInitialShapesBuilders mg1)) None) mg1 w1"
    have ld: "?l \<noteq> Undefined"
    proof (cases "sa = []")
      case True
      with assms(2) b1 show ?thesis by (simp add: loop_done)
    next
      case False
      with a1 show ?thesis by (rule loop_defined)
    qed
    show ?thesis
    proof (cases ?l)
      case (Next shapes mg2 w2)
      note l = Next
      from loop_frame [of w1 mg1 env sa 0 "replicate (length (mInitialShapesBuilders mg1)) None"] l
      have m2: "mg2 = mg1\<lparr>mInitialShapesBuilders := mInitialShapesBuilders mg2\<rparr>"
        by (simp add: same_except_builders)
      have n2: "mEncodersNames mg2 = mEncodersNames mg1" "mEncodersOptionsPtr mg2 = mEncodersOptionsPtr mg1"
        by (subst m2, simp)+
      show ?thesis
      proof (cases "setupEncoders env enc opts mg2 w2")
        case (Next v mg3 w3)
        have "getRawEncoderDataPointers mg3 \<noteq> None"
        proof (cases "enc = []")
          case True
          with setupEncoders_Next [OF Next] n1 n2 assms(3)
          show ?thesis
            by (simp add: getRawEncoderDataPointers_cong [of mg3 mg])
        next
          case False
          with setupEncoders_Next [OF Next] show ?thesis
            by (intro getRawEncoderDataPointers_built [of mg3 enc]) simp_all
        qed
        with Next l \<open>resolveRulePackage env rpk mg w = Next u mg1 w1\<close> c show ?thesis
          by (auto simp: prepare_def split: option.split)
      next
        case Undefined
        with setupEncoders_defined [of env enc opts mg2 w2] show ?thesis by simp
      qed (use l \<open>resolveRulePackage env rpk mg w = Next u mg1 w1\<close> c in \<open>simp_all add: prepare_def\<close>)
    next
      case Undefined
      with ld show ?thesis by simp
    qed (use Next c in \<open>simp_all add: prepare_def\<close>)
  next
    case Undefined
    with resolveRulePackage_defined [of env rpk mg w] show ?thesis by simp
  qed (use c in \<open>simp_all add: prepare_def\<close>)
qed

lemma prepare_file_encoder:
  assumes "fileEncoderSelected enc mg"
    and "prepare env sa rpk enc opts mg w = Next (shapes, encs, eopts) mg1 w1"
  shows "mEncodersNames mg1 ! 0 \<noteq> ENCODER_ID_PYTHON"
proof (cases "enc = []")
  case True
  with prepare_Next_facts(5) [OF assms(2)] assms(1) show ?thesis
    by (simp add: fileEncoderSelected_def split: option.splits)
next
  case False
  with prepare_Next_facts(6) [OF assms(2)] assms(1) show ?thesis
    by (simp add: fileEncoderSelected_def)
qed

text \<open>
  C8: a generate call for which a file-based encoder is selected, on an instance that has
  a builder in every slot when it is valid (as the constructor leaves it), always returns,
  and returns the empty sequence: no exception escapes and nothing is undefined. When
  the \<open>outputPath\<close> entry of the encoder options is absent, is not a string or does not
  name an existing directory, no call of \<open>prt::generate\<close> is made. When it names an
  existing directory and the call gets to the encoder dispatch, \<open>prt::generate\<close> is
  called once, with the shapes and encoder arrays prepared and a
  \<open>FileOutputCallbacks\<close> sink on that directory.
\<close>

theorem file_encoder_returns_nothing:
  assumes "mValid mg \<longrightarrow> allBuilders mg"
    and "fileEncoderSelected enc mg"
  shows "\<exists>mg' w'. generateModel env sa rpk enc opts mg w = Returns [] mg' w'
           \<and> (outputDirectory env opts = None \<longrightarrow> generateCalls w' = generateCalls w)
           \<and> (\<forall>p shapes encs eopts mg1 w1.
                 outputDirectory env opts = Some p \<and> mValid mg
                 \<and> (length sa = 1 \<or> length (mInitialShapesBuilders mg) \<le> length sa)
                 \<and> prepare env sa rpk enc opts mg (warnTooMany sa mg w)
                    = Next (shapes, encs, eopts) mg1 w1
                 \<longrightarrow> generateCalls w' = generateCalls w
                        @ [GenerateCall shapes encs eopts (FileOutputCallbacks p)])"
proof (cases rule: generateModel_cases [where mg = mg and sa = sa])
  case invalid
  then show ?thesis by (simp add: generateModel_invalid)
next
  case rejects
  then show ?thesis by (auto simp: generateModel_rejects)
next
  case passes
  let ?w0 = "warnTooMany sa mg w"
  have g: "generateModel env sa rpk enc opts mg w = catchAll (tryBlock env sa rpk enc opts mg ?w0)"
    using passes by (rule generateModel_passes)
  from passes assms(1) have ab: "allBuilders mg" by simp
  from passes have sa: "sa \<noteq> [] \<or> mInitialShapesBuilders mg = []" by auto
  from assms(2) have en: "enc \<noteq> [] \<or> getRawEncoderDataPointers mg \<noteq> None"
    by (auto simp: fileEncoderSelected_def split: if_splits option.splits)
  have def: "prepare env sa rpk enc opts mg ?w0 \<noteq> Undefined"
    using ab sa en by (rule prepare_defined)
  show ?thesis
  proof (cases "prepare env sa rpk enc opts mg ?w0")
    case (Next x mg1 w1)
    obtain shapes encs eopts where x: "x = (shapes, encs, eopts)" by (cases x) auto
    from prepare_file_encoder [OF assms(2) Next [unfolded x]]
    have f: "mEncodersNames mg1 ! 0 \<noteq> ENCODER_ID_PYTHON" .
    from prepare_Next_facts(2) [OF Next [unfolded x]]
    have q: "generateCalls w1 = generateCalls w" by (simp add: quiet_def)
    have t: "tryBlock env sa rpk enc opts mg ?w0 = generateFiles env opts shapes encs eopts mg1 w1"
      using Next x f by (simp add: tryBlock_def)
    from generateFiles_returns [of env opts shapes encs eopts mg1 w1]
    obtain mg' w' where r: "catchAll (generateFiles env opts shapes encs eopts mg1 w1) = Returns [] mg' w'"
      by blast
    from generateFiles_outcome(3,4) [OF r] q Next x g t r show ?thesis by auto
  next
    case (Return ms mg1 w1)
    with prepare_returnsEmpty [of env sa rpk enc opts mg ?w0] have "ms = []" by simp
    with Return prepare_frame [of mg ?w0 env sa rpk enc opts] g show ?thesis
      by (simp add: tryBlock_def quiet_def)
  next
    case (Throw e mg1 w1)
    with prepare_frame [of mg ?w0 env sa rpk enc opts] g show ?thesis
      by (simp add: tryBlock_def quiet_def catchAll_Throw)
  next
    case Undefined
    with def show ?thesis by simp
  qed
qed


lemma squareGenerator_ready:
  "mValid squareGenerator" "allBuilders squareGenerator"
  "length (mInitialShapesBuilders squareGenerator) = 1"
  by (simp_all add: squareGenerator_eq newModelGenerator_def allBuilders_def)

theorem file_encoder_returns_nothing_witness:
  "mValid squareGenerator \<and> allBuilders squareGenerator
   \<and> fileEncoderSelected ENCODER_ID_OBJ squareGenerator
   \<and> outputDirectory sampleEngine readmeOptions = None
   \<and> (case generateModel sampleEngine [readmeAttributes] ''rules.rpk'' ENCODER_ID_OBJ readmeOptions
             squareGenerator runningWorld of
         Returns ms mg' w' \<Rightarrow> ms = [] \<and> generateCalls w' = []
       | UndefinedBehaviour \<Rightarrow> False)
   \<and> outputDirectory sampleEngine objOptions = Some ''/tmp/out''
   \<and> (case generateModel sampleEngine [readmeAttributes] ''rules.rpk'' ENCODER_ID_OBJ objOptions
             squareGenerator runningWorld of
         Returns ms mg' w' \<Rightarrow> ms = [] \<and> generateCalls w' = [objCall]
       | UndefinedBehaviour \<Rightarrow> False)"
proof -
  have h1: "mValid squareGenerator \<longrightarrow> allBuilders squareGenerator"
    by (simp add: squareGenerator_ready)
  have h2: "fileEncoderSelected ENCODER_ID_OBJ squareGenerator"
    by (simp add: fileEncoderSelected_def ENCODER_ID_OBJ_def ENCODER_ID_PYTHON_def)
  have o1: "outputDirectory sampleEngine readmeOptions = None"
    by (simp add: outputDirectory_def cast_string_item_def readmeOptions_def)
  have o2: "outputDirectory sampleEngine objOptions = Some ''/tmp/out''"
    by (simp add: outputDirectory_def cast_string_item_def objOptions_def)
  have c: "generateCalls runningWorld = []" by (simp add: runningWorld_eq)
  have p: "\<exists>mg1 w1. prepare sampleEngine [readmeAttributes] ''rules.rpk'' ENCODER_ID_OBJ objOptions
             squareGenerator (warnTooMany [readmeAttributes] squareGenerator runningWorld)
           = Next ([Some (PrtInitialShape (squareBuilder\<lparr>isb_attributes := Some readmeShapeAttributes\<rparr>))],
                   [ENCODER_ID_OBJ, ENCODER_ID_CGA_REPORT, ENCODER_ID_CGA_PRINT],
                   [Some [(''outputPath'', AString ''/tmp/out'')],
                    Some [(ENCODER_OPT_NAME, AString FILE_CGA_REPORT)], Some []]) mg1 w1"
    by (simp add: generateModel_eval squareGenerator_eq runningWorld_eq newModelGenerator_def
          readmeAttributes_def objOptions_def readmeShapeAttributes_def ENCODER_ID_OBJ_def)
  from file_encoder_returns_nothing [OF h1 h2, of sampleEngine "[readmeAttributes]" "''rules.rpk''"
      readmeOptions runningWorld] o1 c
  have a: "case generateModel sampleEngine [readmeAttributes] ''rules.rpk'' ENCODER_ID_OBJ readmeOptions
             squareGenerator runningWorld of
         Returns ms mg' w' \<Rightarrow> ms = [] \<and> generateCalls w' = []
       | UndefinedBehaviour \<Rightarrow> False"
    by auto
  from file_encoder_returns_nothing [OF h1 h2, of sampleEngine "[readmeAttributes]" "''rules.rpk''"
      objOptions runningWorld] o2 c p squareGenerator_ready
  have b: "case generateModel sampleEngine [readmeAttributes] ''rules.rpk'' ENCODER_ID_OBJ objOptions
             squareGenerator runningWorld of
         Returns ms mg' w' \<Rightarrow> ms = [] \<and> generateCalls w' = [objCall]
       | UndefinedBehaviour \<Rightarrow> False"
    by (auto simp: objCall_def)
  from squareGenerator_ready h2 o1 o2 a b show ?thesis by blast
qed

section \<open>Every slot holds a builder while the instance is valid\<close>

lemma ctor_body_builders:
  assumes "ctor_body env shape ind mg w = (mg', w')" and "mValid mg'"
  shows "\<exists>isb. mInitialShapesBuilders mg' = (mInitialShapesBuilders mg)[ind := Some isb]"
  using assms by (auto simp: ctor_body_def Let_def split: if_splits)

lemma ctor_loop_builders:
  assumes "ctor_loop env myGeo ind mg w = (mg', w')"
    and "length (mInitialShapesBuilders mg) = length myGeo"
    and "mValid mg'"
    and "\<forall>k < ind. mInitialShapesBuilders mg ! k \<noteq> None"
  shows "\<forall>k < length myGeo. mInitialShapesBuilders mg' ! k \<noteq> None"
  using assms
proof (induction env myGeo ind mg w rule: ctor_loop.induct)
  case (1 env myGeo ind mg w)
  show ?case
  proof (cases "ind < length myGeo")
    case False
    with "1.prems" show ?thesis by (subst (asm) ctor_loop.simps) auto
  next
    case True
    obtain mg1 w1 where b: "ctor_body env (myGeo ! ind) ind mg w = (mg1, w1)"
      by (cases "ctor_body env (myGeo ! ind) ind mg w") auto
    from "1.prems"(1) True b have l: "ctor_loop env myGeo (Suc ind) mg1 w1 = (mg', w')"
      by (subst (asm) ctor_loop.simps) simp
    from ctor_loop_facts [OF l] "1.prems"(3) have v1: "mValid mg1" by simp
    from ctor_body_builders [OF b v1]
    obtain isb where u: "mInitialShapesBuilders mg1 = (mInitialShapesBuilders mg)[ind := Some isb]"
      by blast
    have "\<forall>k < Suc ind. mInitialShapesBuilders mg1 ! k \<noteq> None"
      using u "1.prems"(2,4) True by (auto simp: nth_list_update less_Suc_eq)
    with "1.IH" [OF True b [symmetric] l] u "1.prems"(2) "1.prems"(3) show ?thesis by simp
  qed
qed

lemma ModelGenerator_ctor_allBuilders:
  assumes "ModelGenerator_ctor env myGeo w = (mg, w')"
  shows "mValid mg \<longrightarrow> allBuilders mg"
proof
  assume v: "mValid mg"
  from ctor_loop_builders [OF assms [unfolded ModelGenerator_ctor_def] _ v]
  have "\<forall>k < length myGeo. mInitialShapesBuilders mg ! k \<noteq> None"
    by (simp add: newModelGenerator_def)
  with ModelGenerator_ctor_facts(9) [OF assms] show "allBuilders mg"
    by (simp add: allBuilders_def list_all_length)
qed

section \<open>The shape defaults of the orchestrator\<close>

lemma perform_keeps:
  assumes "perform env c mg w = Returns ms mg' w'"
  shows "keeps mg mg'"
proof (cases c)
  case (CallGenerateModel sa rpk enc opts)
  with assms generateModel_keeps [of env sa rpk enc opts mg w ms mg' w'] show ?thesis by simp
next
  case (CallGenerateAnotherModel sa)
  with assms generateModel_keeps [of env sa "[]" "[]" "[]" mg w ms mg' w'] show ?thesis
    by (auto simp: generateAnotherModel_def split: if_splits)
qed

lemma performAll_keeps:
  "performAll calls mg w = Some (rs, mg', w') \<Longrightarrow> keeps mg mg'"
proof (induction calls arbitrary: mg w rs)
  case Nil
  then show ?case by simp
next
  case (Cons ec calls)
  obtain env c where ec: "ec = (env, c)" by (cases ec) auto
  from Cons.prems ec obtain ms mg1 w1 rs1 where p: "perform env c mg w = Returns ms mg1 w1"
    and r: "performAll calls mg1 w1 = Some (rs1, mg', w')"
    by (auto split: Outcome.splits option.splits)
  from perform_keeps [OF p] Cons.IH [OF r] show ?case by (rule keeps_trans)
qed

lemma generateModel_shapes_given:
  assumes "generateModel env sa rpk enc opts mg w = Returns ms mg1 w1"
    and "generateCalls w1 = generateCalls w @ [GenerateCall shapes encs eopts sink]"
    and "k < length (mInitialShapesBuilders mg)"
  shows "attributed env sa (mg\<lparr>mResolveMap := mResolveMap mg1\<rparr>) k \<noteq> None
         \<and> shapes ! k = map_option createInitialShape
                           (attributed env sa (mg\<lparr>mResolveMap := mResolveMap mg1\<rparr>) k)"
proof (cases rule: generateModel_cases [where mg = mg and sa = sa])
  case invalid
  with assms(1,2) show ?thesis by (auto simp: generateModel_invalid)
next
  case rejects
  with assms(1,2) show ?thesis by (auto simp: generateModel_rejects)
next
  case passes
  with assms(1) have c: "catchAll (tryBlock env sa rpk enc opts mg (warnTooMany sa mg w))
                         = Returns ms mg1 w1"
    by (simp add: generateModel_passes)
  from c show ?thesis
  proof (cases rule: tryBlock_outcome)
    case stopped
    with assms(2) show ?thesis by simp
  next
    case (dispatched shapes' encs' eopts' mg2 w2)
    from prepare_Next_facts(2) [OF dispatched(1)]
    have q: "generateCalls w2 = generateCalls w" by (simp add: quiet_def)
    have e: "mg1 = mg2 \<and> shapes' = shapes"
    proof (cases "mEncodersNames mg2 ! 0 = ENCODER_ID_PYTHON")
      case True
      with dispatched(2) have g: "catchAll (generatePython env shapes' encs' eopts' mg2 w2)
                                  = Returns ms mg1 w1"
        by simp
      from generatePython_outcome(1,2) [OF g] assms(2) q show ?thesis by simp
    next
      case False
      with dispatched(2) have g: "catchAll (generateFiles env opts shapes' encs' eopts' mg2 w2)
                                  = Returns ms mg1 w1"
        by simp
      from generateFiles_outcome(2,3,4) [OF g] assms(2) q show ?thesis
        by (cases "outputDirectory env opts") auto
    qed
    with prepare_Next_facts(8) [OF dispatched(1) assms(3)] show ?thesis by simp
  qed
qed

lemma extract_omitted:
  assumes "createAttributeMapFromPythonDict env d = Inr (Some m)"
  shows "\<exists>rf sr sd sn. extractMainShapeAttributes env d ruleFile startRule seed shapeName
                        = Inr (rf, sr, sd, sn, Some m)
           \<and> (\<not> hasKey m ''ruleFile'' \<longrightarrow> rf = ruleFile)
           \<and> (\<not> hasKey m ''startRule'' \<longrightarrow> sr = startRule)
           \<and> (\<not> hasKey m ''seed'' \<longrightarrow> sd = seed)
           \<and> (\<not> hasKey m ''shapeName'' \<longrightarrow> sn = shapeName)"
  using assms by (simp add: extractMainShapeAttributes_def)

text \<open>
  C5 (as amended): no call changes the shape defaults of the orchestrator. After any
  sequence of calls the rule file, start rule, seed and shape name it holds are those
  it held before, which after construction are \<open>bin/rule.cgb\<close>, \<open>default$init\<close>,
  \<open>666\<close> and \<open>InitialShape\<close>. The shape a call hands to the Engine for slot \<open>k\<close>
  carries the attributes extracted from the dictionary this call selects for \<open>k\<close>,
  against those defaults; for a recognized key the converted dictionary does not have,
  the extracted value is the default.
\<close>

theorem shape_defaults_are_kept:
  "(performAll calls mg w = Some (rs, mg', w') \<longrightarrow>
      mRuleFile mg' = mRuleFile mg \<and> mStartRule mg' = mStartRule mg
      \<and> mSeed mg' = mSeed mg \<and> mShapeName mg' = mShapeName mg)
   \<and> (generateModel env sa rpk enc opts mg w = Returns ms mg1 w1
       \<and> generateCalls w1 = generateCalls w @ [GenerateCall shapes encs eopts sink]
       \<and> k < length (mInitialShapesBuilders mg) \<longrightarrow>
         attributed env sa (mg\<lparr>mResolveMap := mResolveMap mg1\<rparr>) k \<noteq> None
         \<and> shapes ! k = map_option createInitialShape
                           (attributed env sa (mg\<lparr>mResolveMap := mResolveMap mg1\<rparr>) k))
   \<and> (createAttributeMapFromPythonDict env d = Inr (Some m) \<longrightarrow>
        (\<exists>rf sr sd sn. extractMainShapeAttributes env d ruleFile startRule seed shapeName
                        = Inr (rf, sr, sd, sn, Some m)
           \<and> (\<not> hasKey m ''ruleFile'' \<longrightarrow> rf = ruleFile)
           \<and> (\<not> hasKey m ''startRule'' \<longrightarrow> sr = startRule)
           \<and> (\<not> hasKey m ''seed'' \<longrightarrow> sd = seed)
           \<and> (\<not> hasKey m ''shapeName'' \<longrightarrow> sn = shapeName)))
   \<and> mRuleFile (fst (ModelGenerator_ctor env myGeo w0)) = ''bin/rule.cgb''
   \<and> mStartRule (fst (ModelGenerator_ctor env myGeo w0)) = ''default$init''
   \<and> mSeed (fst (ModelGenerator_ctor env myGeo w0)) = 666
   \<and> mShapeName (fst (ModelGenerator_ctor env myGeo w0)) = ''InitialShape''"
proof -
  have c: "ModelGenerator_ctor env myGeo w0
           = (fst (ModelGenerator_ctor env myGeo w0), snd (ModelGenerator_ctor env myGeo w0))"
    by simp
  have "performAll calls mg w = Some (rs, mg', w') \<Longrightarrow>
      mRuleFile mg' = mRuleFile mg \<and> mStartRule mg' = mStartRule mg
      \<and> mSeed mg' = mSeed mg \<and> mShapeName mg' = mShapeName mg"
    by (drule performAll_keeps) (simp add: keeps_def)
  then show ?thesis
    using generateModel_shapes_given [of env sa rpk enc opts mg w ms mg1 w1 shapes encs eopts sink k]
      extract_omitted [of env d m ruleFile startRule seed shapeName]
      ModelGenerator_ctor_facts(5,6,7,8) [OF c]
    by blast
qed

lemma second_generate:
  "generateModel sampleEngine [[]] [] [] [] readmeGenerator readmeWorld
   = Returns [\<lparr>mInitialShapeIndex = 0, gmVertices = [], gmIndices = [], gmFaces = [],
               gmReport = []\<rparr>]
       (readmeGenerator\<lparr>mInitialShapesBuilders :=
          [Some (squareBuilder\<lparr>isb_attributes := Some defaultShapeAttributes\<rparr>)]\<rparr>)
       (call_generate defaultCall readmeWorld)"
  by (simp add: generateModel_eval readmeGenerator_def readmeWorld_def defaultCall_def
        defaultShapeAttributes_def emptyCollector_def squareBuilder_def)

theorem shape_defaults_are_kept_witness:
  "performAll
     [(sampleEngine, CallGenerateModel [readmeAttributes] ''rules.rpk'' ENCODER_ID_PYTHON
                       readmeOptions),
      (sampleEngine, CallGenerateAnotherModel [[]])]
     squareGenerator runningWorld
   = Some ([[\<lparr>mInitialShapeIndex = 0, gmVertices = [], gmIndices = [], gmFaces = [],
               gmReport = []\<rparr>],
            [\<lparr>mInitialShapeIndex = 0, gmVertices = [], gmIndices = [], gmFaces = [],
               gmReport = []\<rparr>]],
           readmeGenerator\<lparr>mInitialShapesBuilders :=
             [Some (squareBuilder\<lparr>isb_attributes := Some defaultShapeAttributes\<rparr>)]\<rparr>,
           call_generate defaultCall readmeWorld)
   \<and> mSeed (readmeGenerator\<lparr>mInitialShapesBuilders :=
               [Some (squareBuilder\<lparr>isb_attributes := Some defaultShapeAttributes\<rparr>)]\<rparr>)
     = mSeed squareGenerator
   \<and> mSeed squareGenerator = 666
   \<and> attributed sampleEngine [[]] readmeGenerator 0
     = Some (squareBuilder\<lparr>isb_attributes := Some defaultShapeAttributes\<rparr>)
   \<and> sa_seed defaultShapeAttributes = 666
   \<and> createAttributeMapFromPythonDict sampleEngine [] = Inr (Some [])
   \<and> extractMainShapeAttributes sampleEngine [] ''bin/rule.cgb'' ''default$init'' 666 ''InitialShape''
     = Inr (''bin/rule.cgb'', ''default$init'', 666, ''InitialShape'', Some [])"
proof -
  let ?m0 = "\<lparr>mInitialShapeIndex = 0, gmVertices = [], gmIndices = [], gmFaces = [],
               gmReport = []\<rparr>"
  let ?g2 = "readmeGenerator\<lparr>mInitialShapesBuilders :=
               [Some (squareBuilder\<lparr>isb_attributes := Some defaultShapeAttributes\<rparr>)]\<rparr>"
  let ?w2 = "call_generate defaultCall readmeWorld"
  let ?calls = "[(sampleEngine, CallGenerateModel [readmeAttributes] ''rules.rpk'' ENCODER_ID_PYTHON
                       readmeOptions),
                 (sampleEngine, CallGenerateAnotherModel [[]])]"
  have p: "performAll ?calls squareGenerator runningWorld = Some ([[?m0], [?m0]], ?g2, ?w2)"
    using readme_generate second_generate
    by (simp add: generateAnotherModel_def readmeGenerator_def)
  have g: "generateCalls ?w2 = generateCalls readmeWorld
             @ [GenerateCall
                  [Some (PrtInitialShape (squareBuilder\<lparr>isb_attributes := Some defaultShapeAttributes\<rparr>))]
                  [ENCODER_ID_PYTHON]
                  [Some [(''emitReport'', ABool True), (''emitGeometry'', ABool True)]]
                  (PyCallbacksSink 1)]"
    by (simp add: defaultCall_def)
  have k: "0 < length (mInitialShapesBuilders readmeGenerator)"
    by (simp add: readmeGenerator_def)
  have d: "createAttributeMapFromPythonDict sampleEngine [] = Inr (Some [])" by simp
  have r: "mResolveMap ?g2 = mResolveMap readmeGenerator"
    "readmeGenerator\<lparr>mResolveMap := mResolveMap readmeGenerator\<rparr> = readmeGenerator"
    by simp_all
  note t1 = shape_defaults_are_kept [where calls = ?calls and mg = squareGenerator
      and w = runningWorld and rs = "[[?m0], [?m0]]" and mg' = ?g2 and w' = ?w2]
  note t2 = shape_defaults_are_kept [where env = sampleEngine and sa = "[[]]" and rpk = "[]"
      and enc = "[]" and opts = "[]" and mg = readmeGenerator and w = readmeWorld
      and ms = "[?m0]" and ?mg1.0 = ?g2 and ?w1.0 = ?w2
      and shapes = "[Some (PrtInitialShape (squareBuilder\<lparr>isb_attributes := Some defaultShapeAttributes\<rparr>))]"
      and encs = "[ENCODER_ID_PYTHON]"
      and eopts = "[Some [(''emitReport'', ABool True), (''emitGeometry'', ABool True)]]"
      and sink = "PyCallbacksSink 1" and k = 0 and d = "[]" and m = "[]"
      and ruleFile = "''bin/rule.cgb''" and startRule = "''default$init''" and seed = 666
      and shapeName = "''InitialShape''"]
  from t1 [THEN conjunct1, THEN mp, OF p] have 1: "mSeed ?g2 = mSeed squareGenerator" by simp
  from t2 [THEN conjunct2, THEN conjunct1] second_generate g k
  have 2: "Some (PrtInitialShape (squareBuilder\<lparr>isb_attributes := Some defaultShapeAttributes\<rparr>))
           = map_option createInitialShape (attributed sampleEngine [[]] readmeGenerator 0)"
    unfolding r by simp
  from t2 [THEN conjunct2, THEN conjunct2, THEN conjunct1] d have 3: "extractMainShapeAttributes sampleEngine [] ''bin/rule.cgb'' ''default$init'' 666
                      ''InitialShape''
                    = Inr (''bin/rule.cgb'', ''default$init'', 666, ''InitialShape'', Some [])"
    by (auto simp: hasKey_def)
  from 2 have 4: "attributed sampleEngine [[]] readmeGenerator 0
                  = Some (squareBuilder\<lparr>isb_attributes := Some defaultShapeAttributes\<rparr>)"
    by (cases "attributed sampleEngine [[]] readmeGenerator 0") (simp_all add: createInitialShape_def)
  have 5: "mSeed squareGenerator = 666" "sa_seed defaultShapeAttributes = 666"
    by (simp_all add: squareGenerator_eq newModelGenerator_def defaultShapeAttributes_def)
  from p 1 3 4 5 d show ?thesis by simp
qed

text \<open>
  C5 as stated fails: the README's call supplies seed 555 and shape name \<open>myShape\<close>;
  the orchestrator still holds 666 and \<open>InitialShape\<close> afterwards, and a second call
  with an empty dictionary hands the Engine a shape with seed 666 and name
  \<open>InitialShape\<close>, the values of construction, not the last supplied ones.
\<close>

theorem shape_defaults_counterexample:
  "generateModel sampleEngine [readmeAttributes] ''rules.rpk'' ENCODER_ID_PYTHON readmeOptions
     squareGenerator runningWorld
   = Returns [\<lparr>mInitialShapeIndex = 0, gmVertices = [], gmIndices = [], gmFaces = [],
               gmReport = []\<rparr>] readmeGenerator readmeWorld
   \<and> last (generateCalls readmeWorld) = readmeCall
   \<and> sa_seed readmeShapeAttributes = 555 \<and> sa_shapeName readmeShapeAttributes = ''myShape''
   \<and> mSeed readmeGenerator = 666 \<and> mShapeName readmeGenerator = ''InitialShape''
   \<and> generateModel sampleEngine [[]] [] [] [] readmeGenerator readmeWorld
     = Returns [\<lparr>mInitialShapeIndex = 0, gmVertices = [], gmIndices = [], gmFaces = [],
                 gmReport = []\<rparr>]
         (readmeGenerator\<lparr>mInitialShapesBuilders :=
            [Some (squareBuilder\<lparr>isb_attributes := Some defaultShapeAttributes\<rparr>)]\<rparr>)
         (call_generate defaultCall readmeWorld)
   \<and> last (generateCalls (call_generate defaultCall readmeWorld)) = defaultCall
   \<and> sa_seed defaultShapeAttributes = 666
   \<and> sa_shapeName defaultShapeAttributes = ''InitialShape''
   \<and> sa_seed defaultShapeAttributes \<noteq> sa_seed readmeShapeAttributes"
  using readme_generate second_generate
  by (simp add: readmeWorld_def readmeShapeAttributes_def readmeGenerator_def
        defaultShapeAttributes_def)

section \<open>What else a call keeps\<close>

lemma stepHolds_andThen_rel:
  assumes "stepHolds (\<lambda>mg' w'. R mg mg') s"
    and "\<And>x mg1 w1. s = Next x mg1 w1 \<Longrightarrow> stepHolds (\<lambda>mg' w'. R mg1 mg') (f x mg1 w1)"
    and "\<And>a b c. R a b \<Longrightarrow> R b c \<Longrightarrow> R a c"
  shows "stepHolds (\<lambda>mg' w'. R mg mg') (andThen s f)"
proof (cases s)
  case (Next x mg1 w1)
  with assms(1) have "R mg mg1" by simp
  with assms(2) [OF Next] assms(3) Next show ?thesis
    by (cases "f x mg1 w1") auto
qed (use assms(1) in auto)

lemma tryBlock_rel:
  assumes "\<And>mg. stepHolds (\<lambda>mg' w'. R mg mg') (prepare env sa rpk enc opts mg w)"
    and "\<And>a. R a a" and "\<And>a b c. R a b \<Longrightarrow> R b c \<Longrightarrow> R a c"
  shows "stepHolds (\<lambda>mg' w'. R mg mg') (tryBlock env sa rpk enc opts mg w)"
  unfolding tryBlock_def
proof (rule stepHolds_andThen_rel [where R = R])
  show "stepHolds (\<lambda>mg' w'. R mg mg') (prepare env sa rpk enc opts mg w)" by (rule assms(1))
next
  fix x :: "PrtInitialShape option list \<times> string list \<times> AttributeMap option list"
    and mg1 :: ModelGenerator and w1 :: World
  obtain shapes encs eopts where x: "x = (shapes, encs, eopts)" by (cases x) auto
  have "stepHolds (\<lambda>mg' w'. R mg1 mg') s"
    if "stepHolds (\<lambda>mg' w'. mg' = mg1 \<and> prtCtx w' = prtCtx w1) s" for s :: "GeneratedModel list step"
    using that assms(2) by (cases s) auto
  then show "stepHolds (\<lambda>mg' w'. R mg1 mg')
          ((\<lambda>(initialShapes, encoders, encodersOptions) mg w.
             if mEncodersNames mg ! 0 = ENCODER_ID_PYTHON
             then generatePython env initialShapes encoders encodersOptions mg w
             else generateFiles env opts initialShapes encoders encodersOptions mg w) x mg1 w1)"
    using generatePython_keeps generateFiles_keeps by (simp add: x)
qed (rule assms(3))

lemma generateModel_rel:
  assumes "generateModel env sa rpk enc opts mg w = Returns ms mg' w'"
    and "\<And>mg w. stepHolds (\<lambda>mg' w'. R mg mg') (prepare env sa rpk enc opts mg w)"
    and "\<And>a. R a a" and "\<And>a b c. R a b \<Longrightarrow> R b c \<Longrightarrow> R a c"
  shows "R mg mg'"
proof (cases rule: generateModel_cases [where mg = mg and sa = sa])
  case invalid
  with assms(1,3) show ?thesis by (auto simp: generateModel_invalid)
next
  case rejects
  with assms(1,3) show ?thesis by (auto simp: generateModel_rejects)
next
  case passes
  with assms(1) have c: "catchAll (tryBlock env sa rpk enc opts mg (warnTooMany sa mg w))
                         = Returns ms mg' w'"
    by (simp add: generateModel_passes)
  have "stepHolds (\<lambda>mg' w'. R mg mg') (tryBlock env sa rpk enc opts mg (warnTooMany sa mg w))"
    by (rule tryBlock_rel [where R = R, OF assms(2,3,4)])
  from catchAll_Returns [OF c, where P = "R mg" and Q = "\<lambda>p c. True"] this
  show ?thesis by simp
qed

lemma prepare_allBuilders:
  "stepHolds (\<lambda>mg' w'. allBuilders mg \<longrightarrow> allBuilders mg') (prepare env sa rpk enc opts mg w)"
  unfolding prepare_def
proof (intro stepHolds_andThen_rel [where R = "\<lambda>a b. allBuilders a \<longrightarrow> allBuilders b"])
  show "stepHolds (\<lambda>mg' w'. allBuilders mg \<longrightarrow> allBuilders mg') (checkPRT mg w)"
    by (simp add: checkPRT_def)
next
  fix mg1 w1
  show "stepHolds (\<lambda>mg' w'. allBuilders mg1 \<longrightarrow> allBuilders mg') (resolveRulePackage env rpk mg1 w1)"
    by (rule stepHolds_mono [OF resolveRulePackage_only_map])
       (auto simp: allBuilders_def dest!: same_except_resolveMap
          dest: arg_cong [where f = mInitialShapesBuilders])
next
  fix mg2 w2
  show "stepHolds (\<lambda>mg' w'. allBuilders mg2 \<longrightarrow> allBuilders mg')
          (setAndCreateInitialShape env sa 0 (replicate (length (mInitialShapesBuilders mg2)) None) mg2 w2)"
    by (rule stepHolds_mono [OF loop_frame]) simp
next
  fix mg3 w3
  show "stepHolds (\<lambda>mg' w'. allBuilders mg3 \<longrightarrow> allBuilders mg') (setupEncoders env enc opts mg3 w3)"
    by (rule stepHolds_mono [OF setupEncoders_result]) (simp add: allBuilders_def)
next
  fix x :: "PrtInitialShape option list" and mg4 w4
  show "stepHolds (\<lambda>mg' w'. allBuilders mg4 \<longrightarrow> allBuilders mg')
          (case getRawEncoderDataPointers mg4 of None \<Rightarrow> Undefined
           | Some (encoders, encodersOptions) \<Rightarrow> Next (x, encoders, encodersOptions) mg4 w4)"
    by (simp split: option.split prod.split)
qed simp_all

text \<open>
  The builder vector filled by the constructor stays filled: a valid instance has a
  builder in every slot after construction and after every sequence of calls.
\<close>

lemma perform_allBuilders:
  assumes "perform env c mg w = Returns ms mg' w'" and "allBuilders mg"
  shows "allBuilders mg'"
proof -
  have g: "allBuilders mg \<longrightarrow> allBuilders mg'"
    if "generateModel env sa rpk enc opts mg w = Returns ms mg' w'" for sa rpk enc opts
    by (rule generateModel_rel [where R = "\<lambda>a b. allBuilders a \<longrightarrow> allBuilders b", OF that])
       (simp_all add: prepare_allBuilders)
  show ?thesis
  proof (cases c)
    case (CallGenerateModel sa rpk enc opts)
    with assms g [of sa rpk enc opts] show ?thesis by simp
  next
    case (CallGenerateAnotherModel sa)
    with assms g [of sa "[]" "[]" "[]"] show ?thesis
      by (auto simp: generateAnotherModel_def split: if_splits)
  qed
qed

lemma reachable_allBuilders:
  assumes "ModelGenerator_ctor env0 myGeo w0 = (mg, w)"
    and "performAll calls mg w = Some (rs, mg', w')"
  shows "mValid mg' \<longrightarrow> allBuilders mg'"
proof
  assume v: "mValid mg'"
  from performAll_keeps [OF assms(2)] v have "mValid mg" by (simp add: keeps_def)
  with ModelGenerator_ctor_allBuilders [OF assms(1)] have a: "allBuilders mg" by simp
  from assms(2) a show "allBuilders mg'"
  proof (induction calls arbitrary: mg w rs)
    case Nil
    then show ?case by simp
  next
    case (Cons ec calls)
    obtain env c where ec: "ec = (env, c)" by (cases ec) auto
    from Cons.prems(1) ec obtain ms mg1 w1 rs1 where p: "perform env c mg w = Returns ms mg1 w1"
      and r: "performAll calls mg1 w1 = Some (rs1, mg', w')"
      by (auto split: Outcome.splits option.splits)
    from perform_allBuilders [OF p Cons.prems(2)] Cons.IH [OF r] show ?case by simp
  qed
qed

text \<open>
  The second half of C6: a call with an empty encoder name leaves the encoder names and
  options of the orchestrator as they were, and when it calls the Engine it passes the
  encoder arrays read from that kept set.
\<close>

lemma prepare_encoders_kept:
  "stepHolds (\<lambda>mg' w'. mEncodersNames mg' = mEncodersNames mg
                         \<and> mEncodersOptionsPtr mg' = mEncodersOptionsPtr mg)
     (prepare env sa rpk [] opts mg w)"
  unfolding prepare_def
proof (intro stepHolds_andThen_rel [where R = "\<lambda>a b. mEncodersNames b = mEncodersNames a
                         \<and> mEncodersOptionsPtr b = mEncodersOptionsPtr a"])
  show "stepHolds (\<lambda>mg' w'. mEncodersNames mg' = mEncodersNames mg
                         \<and> mEncodersOptionsPtr mg' = mEncodersOptionsPtr mg) (checkPRT mg w)"
    by (simp add: checkPRT_def)
next
  fix mg1 w1
  show "stepHolds (\<lambda>mg' w'. mEncodersNames mg' = mEncodersNames mg1
                         \<and> mEncodersOptionsPtr mg' = mEncodersOptionsPtr mg1)
          (resolveRulePackage env rpk mg1 w1)"
    by (rule stepHolds_mono [OF resolveRulePackage_only_map])
       (auto dest: arg_cong [where f = mEncodersNames] arg_cong [where f = mEncodersOptionsPtr])
next
  fix mg2 w2
  show "stepHolds (\<lambda>mg' w'. mEncodersNames mg' = mEncodersNames mg2
                         \<and> mEncodersOptionsPtr mg' = mEncodersOptionsPtr mg2)
          (setAndCreateInitialShape env sa 0 (replicate (length (mInitialShapesBuilders mg2)) None) mg2 w2)"
    by (rule stepHolds_mono [OF loop_frame])
       (auto dest: arg_cong [where f = mEncodersNames] arg_cong [where f = mEncodersOptionsPtr])
next
  fix mg3 w3
  show "stepHolds (\<lambda>mg' w'. mEncodersNames mg' = mEncodersNames mg3
                         \<and> mEncodersOptionsPtr mg' = mEncodersOptionsPtr mg3)
          (setupEncoders env [] opts mg3 w3)"
    by (simp add: setupEncoders_def Let_def)
next
  fix x :: "PrtInitialShape option list" and mg4 w4
  show "stepHolds (\<lambda>mg' w'. mEncodersNames mg' = mEncodersNames mg4
                         \<and> mEncodersOptionsPtr mg' = mEncodersOptionsPtr mg4)
          (case getRawEncoderDataPointers mg4 of None \<Rightarrow> Undefined
           | Some (encoders, encodersOptions) \<Rightarrow> Next (x, encoders, encodersOptions) mg4 w4)"
    by (simp split: option.split prod.split)
qed simp_all

lemma empty_encoder_name_reuses:
  assumes "generateModel env sa rpk [] opts mg w = Returns ms mg' w'"
  shows "mEncodersNames mg' = mEncodersNames mg \<and> mEncodersOptionsPtr mg' = mEncodersOptionsPtr mg"
  by (rule generateModel_rel [where R = "\<lambda>a b. mEncodersNames b = mEncodersNames a
                         \<and> mEncodersOptionsPtr b = mEncodersOptionsPtr a", OF assms])
     (simp_all add: prepare_encoders_kept)

text \<open>
  The only resolve map an orchestrator ever holds is one that \<open>prt::createResolveMap\<close>
  returned to a call with a rule-package path.
\<close>

lemma resolve_map_origin:
  assumes "generateModel env sa rpk enc opts mg w = Returns ms mg' w'"
    and "mResolveMap mg = None" and "mResolveMap mg' \<noteq> None"
  shows "rpk \<noteq> [] \<and> (\<exists>status. createResolveMap env (toFileURI env rpk)
                                    = Inr (mResolveMap mg', status))"
proof -
  let ?R = "\<lambda>a b. mResolveMap b = mResolveMap a
                 \<or> (rpk \<noteq> [] \<and> (\<exists>status. createResolveMap env (toFileURI env rpk)
                                                = Inr (mResolveMap b, status)))"
  have p: "stepHolds (\<lambda>mg' w'. ?R mg mg') (prepare env sa rpk enc opts mg w)" for mg w
    unfolding prepare_def
  proof (intro stepHolds_andThen_rel [where R = ?R])
    show "stepHolds (\<lambda>mg' w'. ?R mg mg') (checkPRT mg w)"
      by (simp add: checkPRT_def)
  next
    fix mg1 w1
    show "stepHolds (\<lambda>mg' w'. ?R mg1 mg') (resolveRulePackage env rpk mg1 w1)"
      by (auto simp: resolveRulePackage_def checkResolveMap_def Let_def
            split: sum.split exn.split option.split)
  next
    fix mg2 w2
    show "stepHolds (\<lambda>mg' w'. ?R mg2 mg')
            (setAndCreateInitialShape env sa 0 (replicate (length (mInitialShapesBuilders mg2)) None) mg2 w2)"
      by (rule stepHolds_mono [OF loop_frame]) (auto dest: arg_cong [where f = mResolveMap])
  next
    fix mg3 w3
    show "stepHolds (\<lambda>mg' w'. ?R mg3 mg') (setupEncoders env enc opts mg3 w3)"
      by (rule stepHolds_mono [OF setupEncoders_result]) simp
  next
    fix x :: "PrtInitialShape option list" and mg4 w4
    show "stepHolds (\<lambda>mg' w'. ?R mg4 mg')
            (case getRawEncoderDataPointers mg4 of None \<Rightarrow> Undefined
             | Some (encoders, encodersOptions) \<Rightarrow> Next (x, encoders, encodersOptions) mg4 w4)"
      by (simp split: option.split prod.split)
  qed auto
  have "?R mg mg'"
    by (rule generateModel_rel [where R = ?R, OF assms(1) p]) auto
  with assms(2,3) show ?thesis by auto
qed

end
